theory Spec2Isabelle
  imports Main
begin

section \<open>Values of the host language\<close>

text \<open>
  The adapter of \<^verbatim>\<open>src/index.ts\<close> handles values of type \<^verbatim>\<open>any\<close>: commands and
  events are object literals, the storage holds library objects and raw payloads, and a
  closure variable may still be \<^verbatim>\<open>undefined\<close>. One datatype holds them all.
  Primitive strings, numbers and booleans are kept apart from their wrapper objects
  (\<^verbatim>\<open>new String(..)\<close>), because \<^verbatim>\<open>instanceof\<close> tells them apart. Library objects
  (\<^verbatim>\<open>Peer\<close>, \<^verbatim>\<open>DataConnection\<close>, \<^verbatim>\<open>MediaConnection\<close>, \<^verbatim>\<open>MediaStream\<close>) carry a
  number as their identity; a connection carries its \<^verbatim>\<open>peer\<close> property as well.
  A number payload is only ever passed along, so an integer stands for it.
\<close>

datatype jsvalue =
    JUndefined
  | JNull
  | JBool bool
  | JNum int
  | JStr string
  | StringObj string
  | NumberObj int
  | BooleanObj bool
  | JsonData jsvalue
  | BlobData jsvalue
  | Obj "(string \<times> jsvalue) list"
  | Arr "jsvalue list"
  | Bytes "nat list"
  | Peer nat
  | DataConnection nat jsvalue
  | MediaConnection nat jsvalue
  | MediaStream nat
  | ErrorObj string

text \<open>Property read \<^verbatim>\<open>o.k\<close> on a plain object; a missing property reads \<^verbatim>\<open>undefined\<close>.\<close>

definition field :: "string \<Rightarrow> jsvalue \<Rightarrow> jsvalue" where
  "field k v =
     (case v of
        Obj fs \<Rightarrow> (case map_of fs k of Some x \<Rightarrow> x | None \<Rightarrow> JUndefined)
      | _ \<Rightarrow> JUndefined)"

text \<open>The \<^verbatim>\<open>peer\<close> property of a connection object (\<^verbatim>\<open>conn.peer\<close>).\<close>

fun conn_peer :: "jsvalue \<Rightarrow> jsvalue" where
  "conn_peer (DataConnection r p) = p"
| "conn_peer (MediaConnection r p) = p"
| "conn_peer v = field ''peer'' v"

text \<open>The \<^verbatim>\<open>typeof\<close> operator.\<close>

fun typeof :: "jsvalue \<Rightarrow> string" where
  "typeof JUndefined = ''undefined''"
| "typeof (JBool b) = ''boolean''"
| "typeof (JNum n) = ''number''"
| "typeof (JStr s) = ''string''"
| "typeof v = ''object''"

text \<open>Truthiness, as \<^verbatim>\<open>if (x)\<close> and \<^verbatim>\<open>x ? a : b\<close> test it.\<close>

fun truthy :: "jsvalue \<Rightarrow> bool" where
  "truthy JUndefined = False"
| "truthy JNull = False"
| "truthy (JBool b) = b"
| "truthy (JNum n) = (n \<noteq> 0)"
| "truthy (JStr s) = (s \<noteq> [])"
| "truthy v = True"

text \<open>The \<^verbatim>\<open>instanceof\<close> tests the adapter makes.\<close>

fun instanceof_Peer :: "jsvalue \<Rightarrow> bool" where
  "instanceof_Peer (Peer r) = True"
| "instanceof_Peer v = False"

fun instanceof_MediaConnection :: "jsvalue \<Rightarrow> bool" where
  "instanceof_MediaConnection (MediaConnection r p) = True"
| "instanceof_MediaConnection v = False"

fun instanceof_MediaStream :: "jsvalue \<Rightarrow> bool" where
  "instanceof_MediaStream (MediaStream r) = True"
| "instanceof_MediaStream v = False"

fun instanceof_BlobData :: "jsvalue \<Rightarrow> bool" where
  "instanceof_BlobData (BlobData d) = True"
| "instanceof_BlobData v = False"

fun instanceof_JsonData :: "jsvalue \<Rightarrow> bool" where
  "instanceof_JsonData (JsonData d) = True"
| "instanceof_JsonData v = False"

fun instanceof_String :: "jsvalue \<Rightarrow> bool" where
  "instanceof_String (StringObj s) = True"
| "instanceof_String v = False"

fun instanceof_Number :: "jsvalue \<Rightarrow> bool" where
  "instanceof_Number (NumberObj n) = True"
| "instanceof_Number v = False"

fun instanceof_Boolean :: "jsvalue \<Rightarrow> bool" where
  "instanceof_Boolean (BooleanObj b) = True"
| "instanceof_Boolean v = False"

text \<open>The getters \<^verbatim>\<open>data\<close> and \<^verbatim>\<open>contentType\<close> of \<^verbatim>\<open>JsonData\<close> and \<^verbatim>\<open>BlobData\<close>.\<close>

fun get_data :: "jsvalue \<Rightarrow> jsvalue" where
  "get_data (JsonData d) = d"
| "get_data (BlobData d) = d"
| "get_data v = field ''data'' v"

definition get_contentType :: "jsvalue \<Rightarrow> jsvalue" where
  "get_contentType v = JStr (typeof (get_data v))"

text \<open>
  Objects with an \<^verbatim>\<open>on\<close> method: the library's event emitters. On anything else
  \<^verbatim>\<open>x.on(..)\<close> is a \<^verbatim>\<open>TypeError\<close>.
\<close>

fun has_on :: "jsvalue \<Rightarrow> bool" where
  "has_on (Peer r) = True"
| "has_on (DataConnection r p) = True"
| "has_on (MediaConnection r p) = True"
| "has_on v = False"

section \<open>The adapter's state\<close>

text \<open>
  What a method of \<^verbatim>\<open>PeerPort\<close> can raise: the strings the lookups throw, the
  \<^verbatim>\<open>TypeError\<close> of a call on something that is no function or of a property read on
  \<^verbatim>\<open>undefined\<close>, and the \<^verbatim>\<open>RangeError\<close> of an exhausted call stack.
\<close>

datatype thrown = ThrowStr string | TypeError | RangeError

text \<open>The calls the adapter makes on the peer-to-peer library, in the order it makes them.\<close>

datatype libcall =
    NewPeerCall jsvalue "jsvalue option"
  | ConnectCall jsvalue jsvalue jsvalue
  | CallCall jsvalue jsvalue jsvalue jsvalue
  | ReconnectCall jsvalue
  | AnswerCall jsvalue "jsvalue option"

text \<open>
  The variables a closure of \<^verbatim>\<open>subscribeToPeerEvents\<close>, \<^verbatim>\<open>handleDataMsg\<close> or
  \<^verbatim>\<open>handleMediaMsg\<close> captures. The variable \<^verbatim>\<open>peerID\<close> of \<^verbatim>\<open>subscribeToPeerEvents\<close>
  is assigned by one closure and read by the others, so the closures hold the index of
  its cell in a store.
\<close>

record peer_env =
  p_peer :: jsvalue
  p_cell :: nat

record data_env =
  d_dataID :: jsvalue
  d_local :: jsvalue
  d_conn :: jsvalue

record media_env =
  m_mediaConnectionID :: jsvalue
  m_local :: jsvalue
  m_conn :: jsvalue

text \<open>
  The state: the \<^verbatim>\<open>#map\<close> of \<^verbatim>\<open>MapStorage\<close>, the events given to \<^verbatim>\<open>#send\<close> (oldest
  first), the outputs of \<^verbatim>\<open>nanoid\<close> (the n-th call returns \<open>nanoid_out n\<close>) and the
  number of calls made, the number of library objects created, the cells of the
  \<^verbatim>\<open>peerID\<close> variables, the closures attached to library objects, and the calls made on
  the library.
\<close>

record port =
  storage :: "jsvalue \<rightharpoonup> jsvalue"
  sent :: "jsvalue list"
  nanoid_out :: "nat \<Rightarrow> string"
  nanoid_count :: nat
  objects :: nat
  peerID_cell :: "nat \<Rightarrow> jsvalue"
  cell_count :: nat
  peer_subs :: "peer_env list"
  data_subs :: "data_env list"
  media_subs :: "media_env list"
  lib_calls :: "libcall list"

type_synonym 'a outcome = "(thrown + 'a) \<times> port"

text \<open>The constructor: an empty \<^verbatim>\<open>MapStorage\<close>, nothing sent, nothing attached.\<close>

definition new_PeerPort :: "(nat \<Rightarrow> string) \<Rightarrow> port" where
  "new_PeerPort gen =
     \<lparr> storage = Map.empty, sent = [], nanoid_out = gen, nanoid_count = 0, objects = 0,
       peerID_cell = (\<lambda>c. JUndefined), cell_count = 0,
       peer_subs = [], data_subs = [], media_subs = [], lib_calls = [] \<rparr>"

text \<open>A generator for concrete runs: \<open>h\<close>, \<open>h0\<close>, \<open>h00\<close>, ...\<close>

definition sample_ids :: "nat \<Rightarrow> string" where
  "sample_ids n = CHR ''h'' # replicate n CHR ''0''"

subsection \<open>\<^verbatim>\<open>MapStorage\<close>, \<^verbatim>\<open>#send\<close> and \<^verbatim>\<open>nanoid\<close>\<close>

definition storage_get :: "jsvalue \<Rightarrow> port \<Rightarrow> jsvalue" where
  "storage_get k s = (case storage s k of None \<Rightarrow> JUndefined | Some v \<Rightarrow> v)"

definition storage_set :: "jsvalue \<Rightarrow> jsvalue \<Rightarrow> port \<Rightarrow> port" where
  "storage_set k v s = s\<lparr>storage := (storage s)(k \<mapsto> v)\<rparr>"

definition storage_delete :: "jsvalue \<Rightarrow> port \<Rightarrow> port" where
  "storage_delete k s = s\<lparr>storage := (storage s)(k := None)\<rparr>"

definition send :: "jsvalue \<Rightarrow> port \<Rightarrow> port" where
  "send ev s = s\<lparr>sent := sent s @ [ev]\<rparr>"

definition nanoid :: "port \<Rightarrow> jsvalue \<times> port" where
  "nanoid s = (JStr (nanoid_out s (nanoid_count s)), s\<lparr>nanoid_count := Suc (nanoid_count s)\<rparr>)"

section \<open>The subscribers\<close>

subsection \<open>\<^verbatim>\<open>handleDataMsg\<close> and its four closures\<close>

definition handleDataMsg :: "jsvalue \<Rightarrow> jsvalue \<Rightarrow> port \<Rightarrow> unit outcome" where
  "handleDataMsg local conn s =
     (let (dataID, s1) = nanoid s in
      if has_on conn
      then (Inr (), s1\<lparr>data_subs := data_subs s1 @
                         [\<lparr>d_dataID = dataID, d_local = local, d_conn = conn\<rparr>]\<rparr>)
      else (Inl TypeError, s1))"

definition data_on_open :: "data_env \<Rightarrow> port \<Rightarrow> port" where
  "data_on_open e s =
     send (Obj [(''type'', JStr ''DataOpened''), (''dataID'', d_dataID e),
                (''local'', d_local e), (''remote'', conn_peer (d_conn e))])
       (storage_set (d_dataID e) (d_conn e) s)"

definition data_on_close :: "data_env \<Rightarrow> port \<Rightarrow> port" where
  "data_on_close e s =
     send (Obj [(''type'', JStr ''DataClosed''), (''dataID'', d_dataID e),
                (''local'', d_local e), (''remote'', conn_peer (d_conn e))]) s"

definition data_on_error :: "data_env \<Rightarrow> jsvalue \<Rightarrow> port \<Rightarrow> port" where
  "data_on_error e err s =
     send (Obj [(''type'', JStr ''DataError''), (''dataID'', d_dataID e),
                (''local'', d_local e), (''remote'', conn_peer (d_conn e)), (''err'', err)]) s"

definition data_on_data :: "data_env \<Rightarrow> jsvalue \<Rightarrow> port \<Rightarrow> port" where
  "data_on_data e data s =
     (if instanceof_BlobData data then
        (let (blobID, s1) = nanoid s;
             s2 = storage_set blobID (get_data data) s1
         in send (Obj [(''type'', JStr ''DataReceivedBlob''), (''dataID'', d_dataID e),
                       (''blobID'', blobID), (''local'', d_local e),
                       (''remote'', conn_peer (d_conn e)),
                       (''contentType'', get_contentType data)]) s2)
      else if instanceof_JsonData data then
        send (Obj [(''type'', JStr ''DataReceivedJSON''), (''dataID'', d_dataID e),
                   (''local'', d_local e), (''remote'', conn_peer (d_conn e)),
                   (''data'', get_data data)]) s
      else if instanceof_String data then
        send (Obj [(''type'', JStr ''DataReceivedJSON''), (''dataID'', d_dataID e),
                   (''local'', d_local e), (''remote'', conn_peer (d_conn e)),
                   (''data'', data)]) s
      else if instanceof_Number data then
        send (Obj [(''type'', JStr ''DataReceivedJSON''), (''dataID'', d_dataID e),
                   (''local'', d_local e), (''remote'', conn_peer (d_conn e)),
                   (''data'', data)]) s
      else if instanceof_Boolean data then
        send (Obj [(''type'', JStr ''DataReceivedJSON''), (''dataID'', d_dataID e),
                   (''local'', d_local e), (''remote'', conn_peer (d_conn e)),
                   (''data'', data)]) s
      else
        (let (blobID, s1) = nanoid s;
             s2 = storage_set blobID data s1
         in send (Obj [(''type'', JStr ''DataReceivedBlob''), (''dataID'', d_dataID e),
                       (''blobID'', blobID), (''local'', d_local e),
                       (''remote'', conn_peer (d_conn e)),
                       (''contentType'', JStr (typeof data))]) s2))"

subsection \<open>\<^verbatim>\<open>handleMediaMsg\<close> and its three closures\<close>

definition handleMediaMsg :: "jsvalue \<Rightarrow> jsvalue \<Rightarrow> port \<Rightarrow> unit outcome" where
  "handleMediaMsg local conn s =
     (let (mediaConnectionID, s1) = nanoid s;
          s2 = storage_set mediaConnectionID conn s1
      in if has_on conn
         then (Inr (), s2\<lparr>media_subs := media_subs s2 @
                 [\<lparr>m_mediaConnectionID = mediaConnectionID, m_local = local, m_conn = conn\<rparr>]\<rparr>)
         else (Inl TypeError, s2))"

definition media_on_stream :: "media_env \<Rightarrow> jsvalue \<Rightarrow> port \<Rightarrow> port" where
  "media_on_stream e stream s =
     (let (streamID, s1) = nanoid s;
          s2 = storage_set streamID stream s1
      in send (Obj [(''type'', JStr ''MediaStreamReceived''),
                    (''mediaConnectionID'', m_mediaConnectionID e), (''streamID'', streamID),
                    (''local'', m_local e), (''remote'', conn_peer (m_conn e))]) s2)"

definition media_on_close :: "media_env \<Rightarrow> port \<Rightarrow> port" where
  "media_on_close e s =
     send (Obj [(''type'', JStr ''MediaStreamClosed''),
                (''mediaConnectionID'', m_mediaConnectionID e),
                (''local'', m_local e), (''remote'', conn_peer (m_conn e))]) s"

definition media_on_error :: "media_env \<Rightarrow> jsvalue \<Rightarrow> port \<Rightarrow> port" where
  "media_on_error e err s =
     send (Obj [(''type'', JStr ''MediaStreamError''),
                (''mediaConnectionID'', m_mediaConnectionID e),
                (''local'', m_local e), (''remote'', conn_peer (m_conn e)), (''err'', err)]) s"

subsection \<open>\<^verbatim>\<open>subscribeToPeerEvents\<close> and its six closures\<close>

text \<open>
  \<^verbatim>\<open>let peerID\<close> makes a cell holding \<^verbatim>\<open>undefined\<close>; the first \<^verbatim>\<open>peer.on\<close> raises when
  the argument has no such method.
\<close>

definition subscribeToPeerEvents :: "jsvalue \<Rightarrow> port \<Rightarrow> unit outcome" where
  "subscribeToPeerEvents peer s =
     (let c = cell_count s;
          s1 = s\<lparr>peerID_cell := (peerID_cell s)(c := JUndefined), cell_count := Suc c\<rparr>
      in if has_on peer
         then (Inr (), s1\<lparr>peer_subs := peer_subs s1 @ [\<lparr>p_peer = peer, p_cell = c\<rparr>]\<rparr>)
         else (Inl TypeError, s1))"

definition peer_on_open :: "peer_env \<Rightarrow> jsvalue \<Rightarrow> port \<Rightarrow> port" where
  "peer_on_open e ident s =
     (let s1 = s\<lparr>peerID_cell := (peerID_cell s)(p_cell e := ident)\<rparr>;
          s2 = storage_set ident (p_peer e) s1
      in send (Obj [(''type'', JStr ''PeerOpened''), (''peerID'', peerID_cell s2 (p_cell e))]) s2)"

text \<open>
  The close closure deletes the key \<^verbatim>\<open>peer.id\<close>, a property the library owns; its value
  when the callback runs is the argument \<open>peer_id\<close>.
\<close>

definition peer_on_close :: "peer_env \<Rightarrow> jsvalue \<Rightarrow> port \<Rightarrow> port" where
  "peer_on_close e peer_id s =
     (let s1 = storage_delete peer_id s
      in send (Obj [(''type'', JStr ''PeerClosed''), (''peerID'', peerID_cell s1 (p_cell e))]) s1)"

definition peer_on_disconnected :: "peer_env \<Rightarrow> jsvalue \<Rightarrow> port \<Rightarrow> port" where
  "peer_on_disconnected e ident s =
     send (Obj [(''type'', JStr ''PeerDisconnected''), (''peerID'', ident)]) s"

definition peer_on_error :: "peer_env \<Rightarrow> jsvalue \<Rightarrow> port \<Rightarrow> port" where
  "peer_on_error e err s =
     send (Obj [(''type'', JStr ''PeerError''), (''peerID'', peerID_cell s (p_cell e)),
                (''err'', err)]) s"

definition peer_on_connection :: "peer_env \<Rightarrow> jsvalue \<Rightarrow> port \<Rightarrow> unit outcome" where
  "peer_on_connection e conn s = handleDataMsg (peerID_cell s (p_cell e)) conn s"

definition peer_on_call :: "peer_env \<Rightarrow> jsvalue \<Rightarrow> port \<Rightarrow> unit outcome" where
  "peer_on_call e conn s = handleMediaMsg (peerID_cell s (p_cell e)) conn s"

section \<open>The command handlers\<close>

subsection \<open>The three lookups\<close>

definition getMediaConnection :: "jsvalue \<Rightarrow> port \<Rightarrow> jsvalue outcome" where
  "getMediaConnection mediaConnectionID s =
     (let conn = storage_get mediaConnectionID s in
      if conn = JUndefined \<or> \<not> instanceof_MediaConnection conn
      then (Inl (ThrowStr ''MediaConnectionDoesNotExist''),
            send (Obj [(''type'', JStr ''MediaConnectionDoesNotExist''),
                       (''mediaConnectionID'', mediaConnectionID)]) s)
      else (Inr conn, s))"

definition getStream :: "jsvalue \<Rightarrow> port \<Rightarrow> jsvalue outcome" where
  "getStream streamID s =
     (let stream = storage_get streamID s in
      if stream = JUndefined \<or> \<not> instanceof_MediaStream stream
      then (Inl (ThrowStr ''StreamDoesNotExist''),
            send (Obj [(''type'', JStr ''StreamDoesNotExist''), (''streamID'', streamID)]) s)
      else (Inr stream, s))"

definition getPeer :: "jsvalue \<Rightarrow> port \<Rightarrow> jsvalue outcome" where
  "getPeer peerID s =
     (let peer = storage_get peerID s in
      if peer = JUndefined \<or> \<not> instanceof_Peer peer
      then (Inl (ThrowStr ''PeerDoesNotExist''),
            send (Obj [(''type'', JStr ''PeerDoesNotExist''), (''peerID'', peerID)]) s)
      else (Inr peer, s))"

subsection \<open>The library calls\<close>

text \<open>
  The peer-to-peer library is not part of the adapter. A call on it is recorded in
  \<open>lib_calls\<close>; \<^verbatim>\<open>new Peer\<close>, \<^verbatim>\<open>peer.connect\<close> and \<^verbatim>\<open>peer.call\<close> return a new object,
  a connection having the remote identifier it was asked for as its \<^verbatim>\<open>peer\<close> property.
\<close>

definition lib_new_Peer :: "jsvalue option \<Rightarrow> port \<Rightarrow> jsvalue \<times> port" where
  "lib_new_Peer arg s =
     (let peer = Peer (objects s)
      in (peer, s\<lparr>objects := Suc (objects s), lib_calls := lib_calls s @ [NewPeerCall peer arg]\<rparr>))"

definition lib_connect :: "jsvalue \<Rightarrow> jsvalue \<Rightarrow> port \<Rightarrow> jsvalue \<times> port" where
  "lib_connect peer remote s =
     (let conn = DataConnection (objects s) remote
      in (conn, s\<lparr>objects := Suc (objects s),
                   lib_calls := lib_calls s @ [ConnectCall peer remote conn]\<rparr>))"

definition lib_call :: "jsvalue \<Rightarrow> jsvalue \<Rightarrow> jsvalue \<Rightarrow> port \<Rightarrow> jsvalue \<times> port" where
  "lib_call peer remote stream s =
     (let conn = MediaConnection (objects s) remote
      in (conn, s\<lparr>objects := Suc (objects s),
                   lib_calls := lib_calls s @ [CallCall peer remote stream conn]\<rparr>))"

definition lib_reconnect :: "jsvalue \<Rightarrow> port \<Rightarrow> port" where
  "lib_reconnect peer s = s\<lparr>lib_calls := lib_calls s @ [ReconnectCall peer]\<rparr>"

definition lib_answer :: "jsvalue \<Rightarrow> jsvalue option \<Rightarrow> port \<Rightarrow> port" where
  "lib_answer mediaConnection stream s =
     s\<lparr>lib_calls := lib_calls s @ [AnswerCall mediaConnection stream]\<rparr>"

subsection \<open>The five handlers\<close>

definition newPeer :: "jsvalue \<Rightarrow> port \<Rightarrow> unit outcome" where
  "newPeer data s =
     (let (peer, s1) =
            (if truthy (field ''peerID'' data)
             then lib_new_Peer (Some (field ''peerID'' data)) s
             else lib_new_Peer None s)
      in subscribeToPeerEvents peer s1)"

definition connectToPeer :: "jsvalue \<Rightarrow> port \<Rightarrow> unit outcome" where
  "connectToPeer data s =
     (case getPeer (field ''local'' data) s of
        (Inl ex, s1) \<Rightarrow> (Inl ex, s1)
      | (Inr peer, s1) \<Rightarrow>
          (let (conn, s2) = lib_connect peer (field ''remote'' data) s1
           in handleDataMsg (field ''local'' data) conn s2))"

definition callPeer :: "jsvalue \<Rightarrow> port \<Rightarrow> unit outcome" where
  "callPeer data s =
     (case getPeer (field ''local'' data) s of
        (Inl ex, s1) \<Rightarrow> (Inl ex, s1)
      | (Inr peer, s1) \<Rightarrow>
          (case getStream (field ''streamID'' data) s1 of
             (Inl ex, s2) \<Rightarrow> (Inl ex, s2)
           | (Inr stream, s2) \<Rightarrow>
               (let (conn, s3) = lib_call peer (field ''remote'' data) stream s2
                in handleMediaMsg (field ''local'' data) conn s3)))"

definition reconnectToServer :: "jsvalue \<Rightarrow> port \<Rightarrow> unit outcome" where
  "reconnectToServer data s =
     (case getPeer (field ''peerID'' data) s of
        (Inl ex, s1) \<Rightarrow> (Inl ex, s1)
      | (Inr peer, s1) \<Rightarrow> (Inr (), lib_reconnect peer s1))"

definition answerMediaConnection :: "jsvalue \<Rightarrow> port \<Rightarrow> unit outcome" where
  "answerMediaConnection data s =
     (case getMediaConnection (field ''mediaConnectionID'' data) s of
        (Inl ex, s1) \<Rightarrow> (Inl ex, s1)
      | (Inr mediaConnection, s1) \<Rightarrow>
          (if truthy (field ''streamID'' data)
           then (case getStream (field ''streamID'' data) s1 of
                   (Inl ex, s2) \<Rightarrow> (Inl ex, s2)
                 | (Inr stream, s2) \<Rightarrow> (Inr (), lib_answer mediaConnection (Some stream) s2))
           else (Inr (), lib_answer mediaConnection None s1)))"

section \<open>The dispatcher\<close>

text \<open>
  \<^verbatim>\<open>msg.type.charAt(0).toLowerCase() + msg.type.slice(1)\<close>. Only the letters A to Z
  are mapped here; every name the dispatcher can find begins with a letter a to z or an
  underscore, so no other first character leads to one.
\<close>

definition toLowerCase :: "char \<Rightarrow> char" where
  "toLowerCase c =
     (case map_of (zip ''ABCDEFGHIJKLMNOPQRSTUVWXYZ'' ''abcdefghijklmnopqrstuvwxyz'') c of
        Some l \<Rightarrow> l
      | None \<Rightarrow> c)"

definition fname_of :: "string \<Rightarrow> string" where
  "fname_of t = (case t of [] \<Rightarrow> [] | c # cs \<Rightarrow> toLowerCase c # cs)"

text \<open>
  \<^verbatim>\<open>this[fname](msg)\<close> reads the property \<open>fname\<close> of the adapter object and calls it
  with the message. The object has no property of its own (its fields are private); the
  read finds the methods of the class \<^verbatim>\<open>PeerPort\<close> and, behind them, the members every
  object inherits from \<^verbatim>\<open>Object.prototype\<close>:
  \<^item> the five handlers;
  \<^item> \<^verbatim>\<open>handleMsg\<close> itself, which computes the same name again and so calls itself
    until the call stack is exhausted (\<^verbatim>\<open>RangeError\<close>);
  \<^item> the three subscribers, called with the message in place of the peer or of the local
    identifier and with no connection;
  \<^item> \<^verbatim>\<open>constructor\<close>, a class, which cannot be called without \<^verbatim>\<open>new\<close>;
  \<^item> \<^verbatim>\<open>toString\<close>, \<^verbatim>\<open>toLocaleString\<close>, \<^verbatim>\<open>valueOf\<close> and \<^verbatim>\<open>isPrototypeOf\<close>, which return;
  \<^item> \<^verbatim>\<open>hasOwnProperty\<close>, \<^verbatim>\<open>propertyIsEnumerable\<close>, \<^verbatim>\<open>__lookupGetter__\<close> and
    \<^verbatim>\<open>__lookupSetter__\<close>, which turn the message into a property key and return; the
    conversion calls the message's \<^verbatim>\<open>toString\<close> and raises when the message has a
    property of that name of its own, which is no function;
  \<^item> \<^verbatim>\<open>__defineGetter__\<close> and \<^verbatim>\<open>__defineSetter__\<close>, which raise for want of a function
    as second argument, and \<^verbatim>\<open>__proto__\<close>, which is an object and no function.
  Any other name reads \<^verbatim>\<open>undefined\<close>, and calling it is a \<^verbatim>\<open>TypeError\<close>.
\<close>

definition handlers :: "string list" where
  "handlers = [''newPeer'', ''connectToPeer'', ''callPeer'', ''reconnectToServer'',
               ''answerMediaConnection'']"

definition own_methods :: "string list" where
  "own_methods = handlers @ [''handleMsg'', ''subscribeToPeerEvents'', ''handleDataMsg'',
                             ''handleMediaMsg'', ''constructor'']"

definition inherited :: "string list" where
  "inherited = [''toString'', ''toLocaleString'', ''valueOf'', ''isPrototypeOf'',
                ''hasOwnProperty'', ''propertyIsEnumerable'', ''__lookupGetter__'',
                ''__lookupSetter__'', ''__defineGetter__'', ''__defineSetter__'',
                ''__proto__'']"

definition call_method :: "string \<Rightarrow> (string \<times> jsvalue) list \<Rightarrow> port \<Rightarrow> unit outcome" where
  "call_method fname msg s =
     (if fname = ''newPeer'' then newPeer (Obj msg) s
      else if fname = ''connectToPeer'' then connectToPeer (Obj msg) s
      else if fname = ''callPeer'' then callPeer (Obj msg) s
      else if fname = ''reconnectToServer'' then reconnectToServer (Obj msg) s
      else if fname = ''answerMediaConnection'' then answerMediaConnection (Obj msg) s
      else if fname = ''handleMsg'' then (Inl RangeError, s)
      else if fname = ''subscribeToPeerEvents'' then subscribeToPeerEvents (Obj msg) s
      else if fname = ''handleDataMsg'' then handleDataMsg (Obj msg) JUndefined s
      else if fname = ''handleMediaMsg'' then handleMediaMsg (Obj msg) JUndefined s
      else if fname = ''constructor'' then (Inl TypeError, s)
      else if fname \<in> set [''toString'', ''toLocaleString'', ''valueOf'', ''isPrototypeOf'']
        then (Inr (), s)
      else if fname \<in> set [''hasOwnProperty'', ''propertyIsEnumerable'',
                            ''__lookupGetter__'', ''__lookupSetter__'']
        then (if map_of msg ''toString'' = None then (Inr (), s) else (Inl TypeError, s))
      else (Inl TypeError, s))"

text \<open>
  \<^verbatim>\<open>handleMsg\<close>, called on the adapter object with a message object. A type tag that is
  no string has no \<^verbatim>\<open>charAt\<close> (or, missing, is \<^verbatim>\<open>undefined\<close>): \<^verbatim>\<open>TypeError\<close>.
  (The constructor gives \<^verbatim>\<open>this.handleMsg\<close> to \<^verbatim>\<open>subscribe\<close> unbound. What follows is
  about the method with the adapter as its receiver, as every handler needs it to
  reach the storage.)
\<close>

definition handleMsg :: "(string \<times> jsvalue) list \<Rightarrow> port \<Rightarrow> unit outcome" where
  "handleMsg msg s =
     (case field ''type'' (Obj msg) of
        JStr t \<Rightarrow> call_method (fname_of t) msg s
      | StringObj t \<Rightarrow> call_method (fname_of t) msg s
      | _ \<Rightarrow> (Inl TypeError, s))"

section \<open>Runs of the adapter\<close>

text \<open>
  The adapter's code runs when a command is given to \<^verbatim>\<open>handleMsg\<close> and when the library
  calls one of the closures. A raise ends that run only; what the run did to the state
  before is kept.
\<close>

datatype occurrence =
    Command "(string \<times> jsvalue) list"
  | PeerOpen peer_env jsvalue
  | PeerClose peer_env jsvalue
  | PeerDisconnected peer_env jsvalue
  | PeerError peer_env jsvalue
  | PeerConnection peer_env jsvalue
  | PeerCall peer_env jsvalue
  | DataOpen data_env
  | DataClose data_env
  | DataError data_env jsvalue
  | DataData data_env jsvalue
  | MediaStreamIn media_env jsvalue
  | MediaClose media_env
  | MediaError media_env jsvalue

fun step :: "occurrence \<Rightarrow> port \<Rightarrow> port" where
  "step (Command msg) s = snd (handleMsg msg s)"
| "step (PeerOpen e ident) s = peer_on_open e ident s"
| "step (PeerClose e peer_id) s = peer_on_close e peer_id s"
| "step (PeerDisconnected e ident) s = peer_on_disconnected e ident s"
| "step (PeerError e err) s = peer_on_error e err s"
| "step (PeerConnection e conn) s = snd (peer_on_connection e conn s)"
| "step (PeerCall e conn) s = snd (peer_on_call e conn s)"
| "step (DataOpen e) s = data_on_open e s"
| "step (DataClose e) s = data_on_close e s"
| "step (DataError e err) s = data_on_error e err s"
| "step (DataData e data) s = data_on_data e data s"
| "step (MediaStreamIn e stream) s = media_on_stream e stream s"
| "step (MediaClose e) s = media_on_close e s"
| "step (MediaError e err) s = media_on_error e err s"

section \<open>Lookups and dispatch: basic facts\<close>

lemma getPeer_absent:
  "\<not> instanceof_Peer (storage_get k s) \<Longrightarrow>
   getPeer k s = (Inl (ThrowStr ''PeerDoesNotExist''),
                  send (Obj [(''type'', JStr ''PeerDoesNotExist''), (''peerID'', k)]) s)"
  by (simp add: getPeer_def)

lemma getPeer_found:
  "instanceof_Peer (storage_get k s) \<Longrightarrow> getPeer k s = (Inr (storage_get k s), s)"
  by (cases "storage_get k s") (simp_all add: getPeer_def)

lemma getStream_absent:
  "\<not> instanceof_MediaStream (storage_get k s) \<Longrightarrow>
   getStream k s = (Inl (ThrowStr ''StreamDoesNotExist''),
                    send (Obj [(''type'', JStr ''StreamDoesNotExist''), (''streamID'', k)]) s)"
  by (simp add: getStream_def)

lemma getStream_found:
  "instanceof_MediaStream (storage_get k s) \<Longrightarrow> getStream k s = (Inr (storage_get k s), s)"
  by (cases "storage_get k s") (simp_all add: getStream_def)

lemma getMediaConnection_absent:
  "\<not> instanceof_MediaConnection (storage_get k s) \<Longrightarrow>
   getMediaConnection k s =
     (Inl (ThrowStr ''MediaConnectionDoesNotExist''),
      send (Obj [(''type'', JStr ''MediaConnectionDoesNotExist''), (''mediaConnectionID'', k)]) s)"
  by (simp add: getMediaConnection_def)

lemma getMediaConnection_found:
  "instanceof_MediaConnection (storage_get k s) \<Longrightarrow>
   getMediaConnection k s = (Inr (storage_get k s), s)"
  by (cases "storage_get k s") (simp_all add: getMediaConnection_def)

lemma handleMsg_tag:
  "field ''type'' (Obj msg) = JStr t \<Longrightarrow> handleMsg msg s = call_method (fname_of t) msg s"
  by (simp add: handleMsg_def)

lemma fname_of_tags:
  "fname_of ''NewPeer'' = ''newPeer''"
  "fname_of ''ConnectToPeer'' = ''connectToPeer''"
  "fname_of ''CallPeer'' = ''callPeer''"
  "fname_of ''ReconnectToServer'' = ''reconnectToServer''"
  "fname_of ''AnswerMediaConnection'' = ''answerMediaConnection''"
  by (simp_all add: fname_of_def toLowerCase_def)


lemma handleMsg_ConnectToPeer:
  "field ''type'' (Obj msg) = JStr ''ConnectToPeer'' \<Longrightarrow>
   handleMsg msg s = connectToPeer (Obj msg) s"
  by (simp add: handleMsg_tag fname_of_tags call_method_def)

lemma handleMsg_CallPeer:
  "field ''type'' (Obj msg) = JStr ''CallPeer'' \<Longrightarrow> handleMsg msg s = callPeer (Obj msg) s"
  by (simp add: handleMsg_tag fname_of_tags call_method_def)

lemma handleMsg_ReconnectToServer:
  "field ''type'' (Obj msg) = JStr ''ReconnectToServer'' \<Longrightarrow>
   handleMsg msg s = reconnectToServer (Obj msg) s"
  by (simp add: handleMsg_tag fname_of_tags call_method_def)

lemma handleMsg_AnswerMediaConnection:
  "field ''type'' (Obj msg) = JStr ''AnswerMediaConnection'' \<Longrightarrow>
   handleMsg msg s = answerMediaConnection (Obj msg) s"
  by (simp add: handleMsg_tag fname_of_tags call_method_def)

section \<open>Inbound payloads\<close>

text \<open>
  Every payload yields one event, and its tag is one of \<^verbatim>\<open>DataReceivedJSON\<close> and
  \<^verbatim>\<open>DataReceivedBlob\<close>.
\<close>

lemma data_on_data_one_event:
  "\<exists>ev. sent (data_on_data e d s) = sent s @ [ev] \<and>
     (field ''type'' ev = JStr ''DataReceivedJSON'' \<or> field ''type'' ev = JStr ''DataReceivedBlob'')"
  by (simp add: data_on_data_def send_def nanoid_def storage_set_def field_def)

text \<open>
  A \<^verbatim>\<open>JsonData\<close> wrapper and the wrapper objects \<^verbatim>\<open>String\<close>, \<^verbatim>\<open>Number\<close> and \<^verbatim>\<open>Boolean\<close>
  are sent inline, with no call of \<^verbatim>\<open>nanoid\<close> and the storage as it was.
\<close>

lemma data_on_data_inline:
  "d = JsonData x \<or> d = StringObj t \<or> d = NumberObj n \<or> d = BooleanObj b \<Longrightarrow>
   data_on_data e d s =
     send (Obj [(''type'', JStr ''DataReceivedJSON''), (''dataID'', d_dataID e),
                (''local'', d_local e), (''remote'', conn_peer (d_conn e)),
                (''data'', (case d of JsonData y \<Rightarrow> y | _ \<Rightarrow> d))]) s"
  by (auto simp add: data_on_data_def)

text \<open>
  C1. The claim: the bare text value \<^verbatim>\<open>"hello"\<close> yields \<^verbatim>\<open>DataReceivedJSON\<close> carrying it
  inline, and no blob handle is generated. The code: a primitive string is no instance
  of \<^verbatim>\<open>String\<close>, so the payload falls through the three wrapper tests to the last
  branch; \<^verbatim>\<open>nanoid\<close> is called, the text is stored under the new handle, and the event is
  \<^verbatim>\<open>DataReceivedBlob\<close> with content type \<^verbatim>\<open>string\<close>.
\<close>

theorem data_primitive_string_is_blob:
  "data_on_data e (JStr ''hello'') s =
     send (Obj [(''type'', JStr ''DataReceivedBlob''), (''dataID'', d_dataID e),
                (''blobID'', JStr (nanoid_out s (nanoid_count s))), (''local'', d_local e),
                (''remote'', conn_peer (d_conn e)), (''contentType'', JStr ''string'')])
       (storage_set (JStr (nanoid_out s (nanoid_count s))) (JStr ''hello'')
          (s\<lparr>nanoid_count := Suc (nanoid_count s)\<rparr>))"
  by (simp add: data_on_data_def nanoid_def)

text \<open>Numbers and booleans that are no wrapper objects go the same way.\<close>

lemma data_primitive_number_boolean_is_blob:
  "field ''type'' (last (sent (data_on_data e (JNum n) s))) = JStr ''DataReceivedBlob''"
  "field ''type'' (last (sent (data_on_data e (JBool b) s))) = JStr ''DataReceivedBlob''"
  by (simp_all add: data_on_data_def nanoid_def send_def storage_set_def field_def)

section \<open>Media connections closing and failing\<close>

text \<open>
  C3. The claim: the close callback of a media connection emits an event tagged
  \<^verbatim>\<open>MediaConnectionClosed\<close>, its error callback one tagged \<^verbatim>\<open>MediaConnectionError\<close>.
  The code: the tags of the two events are \<^verbatim>\<open>MediaStreamClosed\<close> and
  \<^verbatim>\<open>MediaStreamError\<close>; the other fields are as claimed.
\<close>

theorem media_close_error_tags:
  "sent (media_on_close e s) =
     sent s @ [Obj [(''type'', JStr ''MediaStreamClosed''),
                    (''mediaConnectionID'', m_mediaConnectionID e),
                    (''local'', m_local e), (''remote'', conn_peer (m_conn e))]] \<and>
   sent (media_on_error e err s) =
     sent s @ [Obj [(''type'', JStr ''MediaStreamError''),
                    (''mediaConnectionID'', m_mediaConnectionID e),
                    (''local'', m_local e), (''remote'', conn_peer (m_conn e)), (''err'', err)]]"
  by (simp add: media_on_close_def media_on_error_def send_def)

section \<open>Connecting from an unregistered peer\<close>

text \<open>
  C4. For every \<^verbatim>\<open>ConnectToPeer\<close> command whose \<^verbatim>\<open>local\<close> is not registered as a peer
  session (the key is absent, or what it holds is no \<^verbatim>\<open>Peer\<close>), the adapter emits exactly
  the event \<^verbatim>\<open>PeerDoesNotExist\<close> carrying \<^verbatim>\<open>local\<close>, and nothing else in the state
  changes: \<^verbatim>\<open>nanoid\<close> is not called, the library is not called, the storage is as it was.
  The command ends by the raise of \<^verbatim>\<open>#getPeer\<close>.
\<close>

theorem connectToPeer_unregistered:
  assumes "field ''type'' (Obj msg) = JStr ''ConnectToPeer''"
    and "\<not> instanceof_Peer (storage_get (field ''local'' (Obj msg)) s)"
  shows "handleMsg msg s =
           (Inl (ThrowStr ''PeerDoesNotExist''),
            s\<lparr>sent := sent s @ [Obj [(''type'', JStr ''PeerDoesNotExist''),
                                      (''peerID'', field ''local'' (Obj msg))]]\<rparr>)"
  using assms by (simp add: handleMsg_ConnectToPeer connectToPeer_def getPeer_absent send_def)

theorem connectToPeer_unregistered_witness:
  "handleMsg [(''type'', JStr ''ConnectToPeer''), (''local'', JStr ''abc''),
              (''remote'', JStr ''xyz'')] (new_PeerPort sample_ids) =
     (Inl (ThrowStr ''PeerDoesNotExist''),
      (new_PeerPort sample_ids)\<lparr>sent := [Obj [(''type'', JStr ''PeerDoesNotExist''),
                                               (''peerID'', JStr ''abc'')]]\<rparr>)"
proof -
  let ?msg = "[(''type'', JStr ''ConnectToPeer''), (''local'', JStr ''abc''),
               (''remote'', JStr ''xyz'')]"
  let ?s = "new_PeerPort sample_ids"
  have t: "field ''type'' (Obj ?msg) = JStr ''ConnectToPeer''"
    by (simp add: field_def)
  have l: "\<not> instanceof_Peer (storage_get (field ''local'' (Obj ?msg)) ?s)"
    by (simp add: field_def storage_get_def new_PeerPort_def)
  have "sent ?s = []" "field ''local'' (Obj ?msg) = JStr ''abc''"
    by (simp_all add: new_PeerPort_def field_def)
  with connectToPeer_unregistered [OF t l] show ?thesis
    by simp
qed

section \<open>Commands whose lookup fails\<close>

text \<open>What each handler returns when a lookup it needs fails, and when none does.\<close>

lemma callPeer_no_peer:
  "\<not> instanceof_Peer (storage_get (field ''local'' data) s) \<Longrightarrow>
   callPeer data s =
     (Inl (ThrowStr ''PeerDoesNotExist''),
      send (Obj [(''type'', JStr ''PeerDoesNotExist''), (''peerID'', field ''local'' data)]) s)"
  by (simp add: callPeer_def getPeer_absent)

lemma callPeer_no_stream:
  "instanceof_Peer (storage_get (field ''local'' data) s) \<Longrightarrow>
   \<not> instanceof_MediaStream (storage_get (field ''streamID'' data) s) \<Longrightarrow>
   callPeer data s =
     (Inl (ThrowStr ''StreamDoesNotExist''),
      send (Obj [(''type'', JStr ''StreamDoesNotExist''),
                 (''streamID'', field ''streamID'' data)]) s)"
  by (simp add: callPeer_def getPeer_found getStream_absent)

lemma reconnectToServer_no_peer:
  "\<not> instanceof_Peer (storage_get (field ''peerID'' data) s) \<Longrightarrow>
   reconnectToServer data s =
     (Inl (ThrowStr ''PeerDoesNotExist''),
      send (Obj [(''type'', JStr ''PeerDoesNotExist''), (''peerID'', field ''peerID'' data)]) s)"
  by (simp add: reconnectToServer_def getPeer_absent)

lemma connectToPeer_no_peer:
  "\<not> instanceof_Peer (storage_get (field ''local'' data) s) \<Longrightarrow>
   connectToPeer data s =
     (Inl (ThrowStr ''PeerDoesNotExist''),
      send (Obj [(''type'', JStr ''PeerDoesNotExist''), (''peerID'', field ''local'' data)]) s)"
  by (simp add: connectToPeer_def getPeer_absent)

lemma answer_no_connection:
  "\<not> instanceof_MediaConnection (storage_get (field ''mediaConnectionID'' data) s) \<Longrightarrow>
   answerMediaConnection data s =
     (Inl (ThrowStr ''MediaConnectionDoesNotExist''),
      send (Obj [(''type'', JStr ''MediaConnectionDoesNotExist''),
                 (''mediaConnectionID'', field ''mediaConnectionID'' data)]) s)"
  by (simp add: answerMediaConnection_def getMediaConnection_absent)

lemma answer_no_stream:
  "instanceof_MediaConnection (storage_get (field ''mediaConnectionID'' data) s) \<Longrightarrow>
   truthy (field ''streamID'' data) \<Longrightarrow>
   \<not> instanceof_MediaStream (storage_get (field ''streamID'' data) s) \<Longrightarrow>
   answerMediaConnection data s =
     (Inl (ThrowStr ''StreamDoesNotExist''),
      send (Obj [(''type'', JStr ''StreamDoesNotExist''),
                 (''streamID'', field ''streamID'' data)]) s)"
  by (simp add: answerMediaConnection_def getMediaConnection_found getStream_absent)

lemma answer_with_stream:
  "instanceof_MediaConnection (storage_get (field ''mediaConnectionID'' data) s) \<Longrightarrow>
   truthy (field ''streamID'' data) \<Longrightarrow>
   instanceof_MediaStream (storage_get (field ''streamID'' data) s) \<Longrightarrow>
   answerMediaConnection data s =
     (Inr (), lib_answer (storage_get (field ''mediaConnectionID'' data) s)
                (Some (storage_get (field ''streamID'' data) s)) s)"
  by (simp add: answerMediaConnection_def getMediaConnection_found getStream_found)

lemma answer_without_stream:
  "instanceof_MediaConnection (storage_get (field ''mediaConnectionID'' data) s) \<Longrightarrow>
   \<not> truthy (field ''streamID'' data) \<Longrightarrow>
   answerMediaConnection data s =
     (Inr (), lib_answer (storage_get (field ''mediaConnectionID'' data) s) None s)"
  by (simp add: answerMediaConnection_def getMediaConnection_found)

lemma connectToPeer_found:
  "instanceof_Peer (storage_get (field ''local'' data) s) \<Longrightarrow>
   connectToPeer data s =
     (Inr (),
      s\<lparr>objects := Suc (objects s),
        lib_calls := lib_calls s @
          [ConnectCall (storage_get (field ''local'' data) s) (field ''remote'' data)
             (DataConnection (objects s) (field ''remote'' data))],
        nanoid_count := Suc (nanoid_count s),
        data_subs := data_subs s @
          [\<lparr>d_dataID = JStr (nanoid_out s (nanoid_count s)), d_local = field ''local'' data,
            d_conn = DataConnection (objects s) (field ''remote'' data)\<rparr>]\<rparr>)"
  by (simp add: connectToPeer_def getPeer_found lib_connect_def handleDataMsg_def nanoid_def
        Let_def)

lemma callPeer_found:
  "instanceof_Peer (storage_get (field ''local'' data) s) \<Longrightarrow>
   instanceof_MediaStream (storage_get (field ''streamID'' data) s) \<Longrightarrow>
   callPeer data s =
     (Inr (),
      s\<lparr>objects := Suc (objects s),
        lib_calls := lib_calls s @
          [CallCall (storage_get (field ''local'' data) s) (field ''remote'' data)
             (storage_get (field ''streamID'' data) s)
             (MediaConnection (objects s) (field ''remote'' data))],
        nanoid_count := Suc (nanoid_count s),
        storage := (storage s)(JStr (nanoid_out s (nanoid_count s)) \<mapsto>
                      MediaConnection (objects s) (field ''remote'' data)),
        media_subs := media_subs s @
          [\<lparr>m_mediaConnectionID = JStr (nanoid_out s (nanoid_count s)),
            m_local = field ''local'' data,
            m_conn = MediaConnection (objects s) (field ''remote'' data)\<rparr>]\<rparr>)"
  by (simp add: callPeer_def getPeer_found getStream_found lib_call_def handleMediaMsg_def
        nanoid_def storage_set_def Let_def)

text \<open>
  C2, as claimed: a lookup failure is turned into a diagnostic event and never leaves
  the handling of its command as a raised fault. The code: \<^verbatim>\<open>#getPeer\<close> throws the string
  \<^verbatim>\<open>PeerDoesNotExist\<close> after sending the event, neither the handler nor \<^verbatim>\<open>handleMsg\<close>
  catches it, and the raise is what \<^verbatim>\<open>handleMsg\<close> ends with. Here for
  \<^verbatim>\<open>ConnectToPeer{local:"abc", remote:"xyz"}\<close> on a new adapter.
\<close>

theorem lookup_failure_escapes:
  "\<not> instanceof_Peer (storage_get (JStr ''abc'') (new_PeerPort sample_ids)) \<and>
   fst (handleMsg [(''type'', JStr ''ConnectToPeer''), (''local'', JStr ''abc''),
                   (''remote'', JStr ''xyz'')] (new_PeerPort sample_ids)) =
     Inl (ThrowStr ''PeerDoesNotExist'')"
  by (simp add: handleMsg_ConnectToPeer connectToPeer_def getPeer_absent field_def
        storage_get_def new_PeerPort_def)

text \<open>
  C2, amended. For every command whose required lookup fails (the handle is absent from
  the storage, or what it is bound to is of another kind), \<^verbatim>\<open>handleMsg\<close> emits exactly
  one event, \<^verbatim>\<open>PeerDoesNotExist\<close>, \<^verbatim>\<open>StreamDoesNotExist\<close> or
  \<^verbatim>\<open>MediaConnectionDoesNotExist\<close>, carrying the handle the command supplied, and changes
  nothing else of the state. It ends that command by throwing the name of the event as
  a string; no method of the adapter catches it, so the raise is the result of
  \<^verbatim>\<open>handleMsg\<close>. The six cases are: \<^verbatim>\<open>ConnectToPeer\<close> without its peer; \<^verbatim>\<open>CallPeer\<close>
  without its peer, and with its peer but without its stream; \<^verbatim>\<open>ReconnectToServer\<close>
  without its peer; \<^verbatim>\<open>AnswerMediaConnection\<close> without its connection, and with its
  connection and a stream handle given but without that stream.
\<close>

theorem lookup_failure_policy:
  "(field ''type'' (Obj msg) = JStr ''ConnectToPeer'' \<and>
    \<not> instanceof_Peer (storage_get (field ''local'' (Obj msg)) s) \<longrightarrow>
      handleMsg msg s =
        (Inl (ThrowStr ''PeerDoesNotExist''),
         send (Obj [(''type'', JStr ''PeerDoesNotExist''),
                    (''peerID'', field ''local'' (Obj msg))]) s)) \<and>
   (field ''type'' (Obj msg) = JStr ''CallPeer'' \<and>
    \<not> instanceof_Peer (storage_get (field ''local'' (Obj msg)) s) \<longrightarrow>
      handleMsg msg s =
        (Inl (ThrowStr ''PeerDoesNotExist''),
         send (Obj [(''type'', JStr ''PeerDoesNotExist''),
                    (''peerID'', field ''local'' (Obj msg))]) s)) \<and>
   (field ''type'' (Obj msg) = JStr ''CallPeer'' \<and>
    instanceof_Peer (storage_get (field ''local'' (Obj msg)) s) \<and>
    \<not> instanceof_MediaStream (storage_get (field ''streamID'' (Obj msg)) s) \<longrightarrow>
      handleMsg msg s =
        (Inl (ThrowStr ''StreamDoesNotExist''),
         send (Obj [(''type'', JStr ''StreamDoesNotExist''),
                    (''streamID'', field ''streamID'' (Obj msg))]) s)) \<and>
   (field ''type'' (Obj msg) = JStr ''ReconnectToServer'' \<and>
    \<not> instanceof_Peer (storage_get (field ''peerID'' (Obj msg)) s) \<longrightarrow>
      handleMsg msg s =
        (Inl (ThrowStr ''PeerDoesNotExist''),
         send (Obj [(''type'', JStr ''PeerDoesNotExist''),
                    (''peerID'', field ''peerID'' (Obj msg))]) s)) \<and>
   (field ''type'' (Obj msg) = JStr ''AnswerMediaConnection'' \<and>
    \<not> instanceof_MediaConnection (storage_get (field ''mediaConnectionID'' (Obj msg)) s) \<longrightarrow>
      handleMsg msg s =
        (Inl (ThrowStr ''MediaConnectionDoesNotExist''),
         send (Obj [(''type'', JStr ''MediaConnectionDoesNotExist''),
                    (''mediaConnectionID'', field ''mediaConnectionID'' (Obj msg))]) s)) \<and>
   (field ''type'' (Obj msg) = JStr ''AnswerMediaConnection'' \<and>
    instanceof_MediaConnection (storage_get (field ''mediaConnectionID'' (Obj msg)) s) \<and>
    truthy (field ''streamID'' (Obj msg)) \<and>
    \<not> instanceof_MediaStream (storage_get (field ''streamID'' (Obj msg)) s) \<longrightarrow>
      handleMsg msg s =
        (Inl (ThrowStr ''StreamDoesNotExist''),
         send (Obj [(''type'', JStr ''StreamDoesNotExist''),
                    (''streamID'', field ''streamID'' (Obj msg))]) s))"
proof (intro conjI impI; elim conjE)
  assume "field ''type'' (Obj msg) = JStr ''ConnectToPeer''"
    and "\<not> instanceof_Peer (storage_get (field ''local'' (Obj msg)) s)"
  then show "handleMsg msg s =
        (Inl (ThrowStr ''PeerDoesNotExist''),
         send (Obj [(''type'', JStr ''PeerDoesNotExist''),
                    (''peerID'', field ''local'' (Obj msg))]) s)"
    by (simp add: handleMsg_ConnectToPeer connectToPeer_no_peer)
next
  assume "field ''type'' (Obj msg) = JStr ''CallPeer''"
    and "\<not> instanceof_Peer (storage_get (field ''local'' (Obj msg)) s)"
  then show "handleMsg msg s =
        (Inl (ThrowStr ''PeerDoesNotExist''),
         send (Obj [(''type'', JStr ''PeerDoesNotExist''),
                    (''peerID'', field ''local'' (Obj msg))]) s)"
    by (simp add: handleMsg_CallPeer callPeer_no_peer)
next
  assume "field ''type'' (Obj msg) = JStr ''CallPeer''"
    and "instanceof_Peer (storage_get (field ''local'' (Obj msg)) s)"
    and "\<not> instanceof_MediaStream (storage_get (field ''streamID'' (Obj msg)) s)"
  then show "handleMsg msg s =
        (Inl (ThrowStr ''StreamDoesNotExist''),
         send (Obj [(''type'', JStr ''StreamDoesNotExist''),
                    (''streamID'', field ''streamID'' (Obj msg))]) s)"
    by (simp add: handleMsg_CallPeer callPeer_no_stream)
next
  assume "field ''type'' (Obj msg) = JStr ''ReconnectToServer''"
    and "\<not> instanceof_Peer (storage_get (field ''peerID'' (Obj msg)) s)"
  then show "handleMsg msg s =
        (Inl (ThrowStr ''PeerDoesNotExist''),
         send (Obj [(''type'', JStr ''PeerDoesNotExist''),
                    (''peerID'', field ''peerID'' (Obj msg))]) s)"
    by (simp add: handleMsg_ReconnectToServer reconnectToServer_no_peer)
next
  assume "field ''type'' (Obj msg) = JStr ''AnswerMediaConnection''"
    and "\<not> instanceof_MediaConnection (storage_get (field ''mediaConnectionID'' (Obj msg)) s)"
  then show "handleMsg msg s =
        (Inl (ThrowStr ''MediaConnectionDoesNotExist''),
         send (Obj [(''type'', JStr ''MediaConnectionDoesNotExist''),
                    (''mediaConnectionID'', field ''mediaConnectionID'' (Obj msg))]) s)"
    by (simp add: handleMsg_AnswerMediaConnection answer_no_connection)
next
  assume "field ''type'' (Obj msg) = JStr ''AnswerMediaConnection''"
    and "instanceof_MediaConnection (storage_get (field ''mediaConnectionID'' (Obj msg)) s)"
    and "truthy (field ''streamID'' (Obj msg))"
    and "\<not> instanceof_MediaStream (storage_get (field ''streamID'' (Obj msg)) s)"
  then show "handleMsg msg s =
        (Inl (ThrowStr ''StreamDoesNotExist''),
         send (Obj [(''type'', JStr ''StreamDoesNotExist''),
                    (''streamID'', field ''streamID'' (Obj msg))]) s)"
    by (simp add: handleMsg_AnswerMediaConnection answer_no_stream)
qed

text \<open>The six cases of C2 on concrete commands and storages.\<close>

theorem lookup_failure_policy_witness:
  "handleMsg [(''type'', JStr ''ConnectToPeer''), (''local'', JStr ''abc''),
              (''remote'', JStr ''xyz'')] (new_PeerPort sample_ids) =
     (Inl (ThrowStr ''PeerDoesNotExist''),
      send (Obj [(''type'', JStr ''PeerDoesNotExist''), (''peerID'', JStr ''abc'')])
        (new_PeerPort sample_ids)) \<and>
   handleMsg [(''type'', JStr ''CallPeer''), (''local'', JStr ''abc''),
              (''remote'', JStr ''xyz''), (''streamID'', JStr ''s1'')] (new_PeerPort sample_ids) =
     (Inl (ThrowStr ''PeerDoesNotExist''),
      send (Obj [(''type'', JStr ''PeerDoesNotExist''), (''peerID'', JStr ''abc'')])
        (new_PeerPort sample_ids)) \<and>
   handleMsg [(''type'', JStr ''CallPeer''), (''local'', JStr ''abc''),
              (''remote'', JStr ''xyz''), (''streamID'', JStr ''s1'')]
       (storage_set (JStr ''abc'') (Peer 0) (new_PeerPort sample_ids)) =
     (Inl (ThrowStr ''StreamDoesNotExist''),
      send (Obj [(''type'', JStr ''StreamDoesNotExist''), (''streamID'', JStr ''s1'')])
        (storage_set (JStr ''abc'') (Peer 0) (new_PeerPort sample_ids))) \<and>
   handleMsg [(''type'', JStr ''ReconnectToServer''), (''peerID'', JStr ''abc'')]
       (new_PeerPort sample_ids) =
     (Inl (ThrowStr ''PeerDoesNotExist''),
      send (Obj [(''type'', JStr ''PeerDoesNotExist''), (''peerID'', JStr ''abc'')])
        (new_PeerPort sample_ids)) \<and>
   handleMsg [(''type'', JStr ''AnswerMediaConnection''), (''mediaConnectionID'', JStr ''abc'')]
       (storage_set (JStr ''abc'') (Peer 0) (new_PeerPort sample_ids)) =
     (Inl (ThrowStr ''MediaConnectionDoesNotExist''),
      send (Obj [(''type'', JStr ''MediaConnectionDoesNotExist''),
                 (''mediaConnectionID'', JStr ''abc'')])
        (storage_set (JStr ''abc'') (Peer 0) (new_PeerPort sample_ids))) \<and>
   handleMsg [(''type'', JStr ''AnswerMediaConnection''), (''mediaConnectionID'', JStr ''m''),
              (''streamID'', JStr ''s1'')]
       (storage_set (JStr ''m'') (MediaConnection 1 (JStr ''xyz'')) (new_PeerPort sample_ids)) =
     (Inl (ThrowStr ''StreamDoesNotExist''),
      send (Obj [(''type'', JStr ''StreamDoesNotExist''), (''streamID'', JStr ''s1'')])
        (storage_set (JStr ''m'') (MediaConnection 1 (JStr ''xyz'')) (new_PeerPort sample_ids)))"
  using
    lookup_failure_policy [of "[(''type'', JStr ''ConnectToPeer''), (''local'', JStr ''abc''),
              (''remote'', JStr ''xyz'')]" "new_PeerPort sample_ids"]
    lookup_failure_policy [of "[(''type'', JStr ''CallPeer''), (''local'', JStr ''abc''),
              (''remote'', JStr ''xyz''), (''streamID'', JStr ''s1'')]" "new_PeerPort sample_ids"]
    lookup_failure_policy [of "[(''type'', JStr ''CallPeer''), (''local'', JStr ''abc''),
              (''remote'', JStr ''xyz''), (''streamID'', JStr ''s1'')]"
              "storage_set (JStr ''abc'') (Peer 0) (new_PeerPort sample_ids)"]
    lookup_failure_policy [of "[(''type'', JStr ''ReconnectToServer''), (''peerID'', JStr ''abc'')]"
              "new_PeerPort sample_ids"]
    lookup_failure_policy [of "[(''type'', JStr ''AnswerMediaConnection''),
              (''mediaConnectionID'', JStr ''abc'')]"
              "storage_set (JStr ''abc'') (Peer 0) (new_PeerPort sample_ids)"]
    lookup_failure_policy [of "[(''type'', JStr ''AnswerMediaConnection''),
              (''mediaConnectionID'', JStr ''m''), (''streamID'', JStr ''s1'')]"
              "storage_set (JStr ''m'') (MediaConnection 1 (JStr ''xyz'')) (new_PeerPort sample_ids)"]
  by (simp add: field_def storage_get_def storage_set_def new_PeerPort_def)

section \<open>Answering a media connection\<close>

text \<open>
  C7, as claimed: the stream lookup fails with \<^verbatim>\<open>StreamDoesNotExist\<close>, and the connection
  is not answered, whenever a \<^verbatim>\<open>streamID\<close> is supplied but unregistered. The code tests
  \<^verbatim>\<open>if (data.streamID)\<close>: the empty string is supplied and unregistered, yet it takes
  the branch of a missing \<^verbatim>\<open>streamID\<close>, and the connection is answered with no stream
  and no event.
\<close>

theorem answer_empty_streamID:
  "storage_get (JStr [])
     (storage_set (JStr ''m'') (MediaConnection 1 (JStr ''xyz'')) (new_PeerPort sample_ids)) =
     JUndefined \<and>
   handleMsg [(''type'', JStr ''AnswerMediaConnection''), (''mediaConnectionID'', JStr ''m''),
              (''streamID'', JStr [])]
       (storage_set (JStr ''m'') (MediaConnection 1 (JStr ''xyz'')) (new_PeerPort sample_ids)) =
     (Inr (), lib_answer (MediaConnection 1 (JStr ''xyz'')) None
        (storage_set (JStr ''m'') (MediaConnection 1 (JStr ''xyz'')) (new_PeerPort sample_ids)))"
  by (simp add: handleMsg_AnswerMediaConnection answer_without_stream field_def
        storage_get_def storage_set_def new_PeerPort_def)

text \<open>
  C7, amended. \<^verbatim>\<open>AnswerMediaConnection\<close> looks the media connection up first and in the
  same way whatever \<^verbatim>\<open>streamID\<close> is: when the handle is absent or bound to something
  else, the one event \<^verbatim>\<open>MediaConnectionDoesNotExist\<close> is emitted and the command ends by
  the raise. When the connection is found, the two cases differ in the stream lookup
  only: with a \<^verbatim>\<open>streamID\<close> that is missing or falsy (the empty string) the connection
  is answered with no stream; with a truthy \<^verbatim>\<open>streamID\<close> bound to a \<^verbatim>\<open>MediaStream\<close> it is
  answered with that stream; with a truthy \<^verbatim>\<open>streamID\<close> that is unregistered or bound to
  something else, \<^verbatim>\<open>StreamDoesNotExist\<close> is emitted and the command ends by the raise,
  the connection unanswered.
\<close>

theorem answer_lookup_steps:
  "(field ''type'' (Obj msg) = JStr ''AnswerMediaConnection'' \<and>
    \<not> instanceof_MediaConnection (storage_get (field ''mediaConnectionID'' (Obj msg)) s) \<longrightarrow>
      handleMsg msg s =
        (Inl (ThrowStr ''MediaConnectionDoesNotExist''),
         send (Obj [(''type'', JStr ''MediaConnectionDoesNotExist''),
                    (''mediaConnectionID'', field ''mediaConnectionID'' (Obj msg))]) s)) \<and>
   (field ''type'' (Obj msg) = JStr ''AnswerMediaConnection'' \<and>
    instanceof_MediaConnection (storage_get (field ''mediaConnectionID'' (Obj msg)) s) \<and>
    \<not> truthy (field ''streamID'' (Obj msg)) \<longrightarrow>
      handleMsg msg s =
        (Inr (), lib_answer (storage_get (field ''mediaConnectionID'' (Obj msg)) s) None s)) \<and>
   (field ''type'' (Obj msg) = JStr ''AnswerMediaConnection'' \<and>
    instanceof_MediaConnection (storage_get (field ''mediaConnectionID'' (Obj msg)) s) \<and>
    truthy (field ''streamID'' (Obj msg)) \<and>
    instanceof_MediaStream (storage_get (field ''streamID'' (Obj msg)) s) \<longrightarrow>
      handleMsg msg s =
        (Inr (), lib_answer (storage_get (field ''mediaConnectionID'' (Obj msg)) s)
                   (Some (storage_get (field ''streamID'' (Obj msg)) s)) s)) \<and>
   (field ''type'' (Obj msg) = JStr ''AnswerMediaConnection'' \<and>
    instanceof_MediaConnection (storage_get (field ''mediaConnectionID'' (Obj msg)) s) \<and>
    truthy (field ''streamID'' (Obj msg)) \<and>
    \<not> instanceof_MediaStream (storage_get (field ''streamID'' (Obj msg)) s) \<longrightarrow>
      handleMsg msg s =
        (Inl (ThrowStr ''StreamDoesNotExist''),
         send (Obj [(''type'', JStr ''StreamDoesNotExist''),
                    (''streamID'', field ''streamID'' (Obj msg))]) s))"
  by (simp add: handleMsg_AnswerMediaConnection answer_no_connection answer_without_stream
        answer_with_stream answer_no_stream)

text \<open>The cases of C7 on concrete commands and storages.\<close>

theorem answer_lookup_steps_witness:
  "handleMsg [(''type'', JStr ''AnswerMediaConnection''), (''mediaConnectionID'', JStr ''m'')]
       (new_PeerPort sample_ids) =
     (Inl (ThrowStr ''MediaConnectionDoesNotExist''),
      send (Obj [(''type'', JStr ''MediaConnectionDoesNotExist''),
                 (''mediaConnectionID'', JStr ''m'')]) (new_PeerPort sample_ids)) \<and>
   handleMsg [(''type'', JStr ''AnswerMediaConnection''), (''mediaConnectionID'', JStr ''m''),
              (''streamID'', JStr ''s1'')] (new_PeerPort sample_ids) =
     (Inl (ThrowStr ''MediaConnectionDoesNotExist''),
      send (Obj [(''type'', JStr ''MediaConnectionDoesNotExist''),
                 (''mediaConnectionID'', JStr ''m'')]) (new_PeerPort sample_ids)) \<and>
   handleMsg [(''type'', JStr ''AnswerMediaConnection''), (''mediaConnectionID'', JStr ''m'')]
       (storage_set (JStr ''s1'') (MediaStream 2)
          (storage_set (JStr ''m'') (MediaConnection 1 (JStr ''xyz'')) (new_PeerPort sample_ids))) =
     (Inr (), lib_answer (MediaConnection 1 (JStr ''xyz'')) None
       (storage_set (JStr ''s1'') (MediaStream 2)
          (storage_set (JStr ''m'') (MediaConnection 1 (JStr ''xyz'')) (new_PeerPort sample_ids)))) \<and>
   handleMsg [(''type'', JStr ''AnswerMediaConnection''), (''mediaConnectionID'', JStr ''m''),
              (''streamID'', JStr ''s1'')]
       (storage_set (JStr ''s1'') (MediaStream 2)
          (storage_set (JStr ''m'') (MediaConnection 1 (JStr ''xyz'')) (new_PeerPort sample_ids))) =
     (Inr (), lib_answer (MediaConnection 1 (JStr ''xyz'')) (Some (MediaStream 2))
       (storage_set (JStr ''s1'') (MediaStream 2)
          (storage_set (JStr ''m'') (MediaConnection 1 (JStr ''xyz'')) (new_PeerPort sample_ids)))) \<and>
   handleMsg [(''type'', JStr ''AnswerMediaConnection''), (''mediaConnectionID'', JStr ''m''),
              (''streamID'', JStr ''s2'')]
       (storage_set (JStr ''s1'') (MediaStream 2)
          (storage_set (JStr ''m'') (MediaConnection 1 (JStr ''xyz'')) (new_PeerPort sample_ids))) =
     (Inl (ThrowStr ''StreamDoesNotExist''),
      send (Obj [(''type'', JStr ''StreamDoesNotExist''), (''streamID'', JStr ''s2'')])
       (storage_set (JStr ''s1'') (MediaStream 2)
          (storage_set (JStr ''m'') (MediaConnection 1 (JStr ''xyz'')) (new_PeerPort sample_ids))))"
  using
    answer_lookup_steps [of "[(''type'', JStr ''AnswerMediaConnection''),
        (''mediaConnectionID'', JStr ''m'')]" "new_PeerPort sample_ids"]
    answer_lookup_steps [of "[(''type'', JStr ''AnswerMediaConnection''),
        (''mediaConnectionID'', JStr ''m''), (''streamID'', JStr ''s1'')]"
        "new_PeerPort sample_ids"]
    answer_lookup_steps [of "[(''type'', JStr ''AnswerMediaConnection''),
        (''mediaConnectionID'', JStr ''m'')]"
        "storage_set (JStr ''s1'') (MediaStream 2)
          (storage_set (JStr ''m'') (MediaConnection 1 (JStr ''xyz'')) (new_PeerPort sample_ids))"]
    answer_lookup_steps [of "[(''type'', JStr ''AnswerMediaConnection''),
        (''mediaConnectionID'', JStr ''m''), (''streamID'', JStr ''s1'')]"
        "storage_set (JStr ''s1'') (MediaStream 2)
          (storage_set (JStr ''m'') (MediaConnection 1 (JStr ''xyz'')) (new_PeerPort sample_ids))"]
    answer_lookup_steps [of "[(''type'', JStr ''AnswerMediaConnection''),
        (''mediaConnectionID'', JStr ''m''), (''streamID'', JStr ''s2'')]"
        "storage_set (JStr ''s1'') (MediaStream 2)
          (storage_set (JStr ''m'') (MediaConnection 1 (JStr ''xyz'')) (new_PeerPort sample_ids))"]
  by (simp add: field_def storage_get_def storage_set_def new_PeerPort_def)

section \<open>When a handle is registered\<close>

text \<open>
  C5. Attaching the subscriber to a media connection (\<^verbatim>\<open>handleMediaMsg\<close>) calls
  \<^verbatim>\<open>nanoid\<close> once and stores the connection under the new handle at once, before the
  closures it attaches can run. Attaching the subscriber to a data channel
  (\<^verbatim>\<open>handleDataMsg\<close>) calls \<^verbatim>\<open>nanoid\<close> once and leaves the storage as it was; the open
  callback stores the channel under that handle and emits \<^verbatim>\<open>DataOpened\<close> with the
  handle, the local identifier and the channel's remote identifier; the close and the
  error callback do not touch the storage.
\<close>

theorem registration_timing:
  "handleMediaMsg local (MediaConnection r p) s =
     (Inr (),
      s\<lparr>nanoid_count := Suc (nanoid_count s),
        storage := (storage s)(JStr (nanoid_out s (nanoid_count s)) \<mapsto> MediaConnection r p),
        media_subs := media_subs s @
          [\<lparr>m_mediaConnectionID = JStr (nanoid_out s (nanoid_count s)), m_local = local,
            m_conn = MediaConnection r p\<rparr>]\<rparr>) \<and>
   handleDataMsg local (DataConnection r p) s =
     (Inr (),
      s\<lparr>nanoid_count := Suc (nanoid_count s),
        data_subs := data_subs s @
          [\<lparr>d_dataID = JStr (nanoid_out s (nanoid_count s)), d_local = local,
            d_conn = DataConnection r p\<rparr>]\<rparr>) \<and>
   data_on_open \<lparr>d_dataID = h, d_local = l, d_conn = DataConnection r p\<rparr> s =
     s\<lparr>storage := (storage s)(h \<mapsto> DataConnection r p),
       sent := sent s @ [Obj [(''type'', JStr ''DataOpened''), (''dataID'', h),
                              (''local'', l), (''remote'', p)]]\<rparr> \<and>
   storage (data_on_close d s) = storage s \<and>
   storage (data_on_error d err s) = storage s"
  by (simp add: handleMediaMsg_def handleDataMsg_def nanoid_def storage_set_def
        data_on_open_def data_on_close_def data_on_error_def send_def)

text \<open>
  C5 on a new adapter: the first handle is \<open>h\<close>; it is bound after the media subscriber
  is attached, unbound after the data subscriber is attached, and bound after the data
  channel's open callback.
\<close>

theorem registration_timing_witness:
  "storage_get (JStr ''h'')
     (snd (handleMediaMsg (JStr ''abc'') (MediaConnection 0 (JStr ''xyz''))
             (new_PeerPort sample_ids))) = MediaConnection 0 (JStr ''xyz'') \<and>
   storage_get (JStr ''h'')
     (snd (handleDataMsg (JStr ''abc'') (DataConnection 0 (JStr ''xyz''))
             (new_PeerPort sample_ids))) = JUndefined \<and>
   storage_get (JStr ''h'')
     (data_on_open \<lparr>d_dataID = JStr ''h'', d_local = JStr ''abc'',
                     d_conn = DataConnection 0 (JStr ''xyz'')\<rparr>
        (snd (handleDataMsg (JStr ''abc'') (DataConnection 0 (JStr ''xyz''))
                (new_PeerPort sample_ids)))) = DataConnection 0 (JStr ''xyz'')"
  using
    registration_timing [of "JStr ''abc''" 0 "JStr ''xyz''" "new_PeerPort sample_ids"]
    registration_timing [of _ 0 "JStr ''xyz''"
      "snd (handleDataMsg (JStr ''abc'') (DataConnection 0 (JStr ''xyz''))
              (new_PeerPort sample_ids))" "JStr ''h''" "JStr ''abc''"]
  by (simp add: storage_get_def new_PeerPort_def sample_ids_def)

section \<open>A peer session from creation to close\<close>


text \<open>
  The close closure deletes the key it reads from \<^verbatim>\<open>peer.id\<close> and no other.
\<close>

lemma peer_on_close_other_key:
  "k \<noteq> peer_id \<Longrightarrow> storage (peer_on_close e peer_id s) k = storage s k"
  by (simp add: peer_on_close_def storage_delete_def send_def Let_def)




section \<open>What each operation does to the storage\<close>

lemma storage_getPeer: "storage (snd (getPeer k s)) = storage s"
  by (simp add: getPeer_def send_def Let_def)

lemma storage_getStream: "storage (snd (getStream k s)) = storage s"
  by (simp add: getStream_def send_def Let_def)

lemma storage_getMediaConnection: "storage (snd (getMediaConnection k s)) = storage s"
  by (simp add: getMediaConnection_def send_def Let_def)

lemma storage_handleDataMsg: "storage (snd (handleDataMsg l c s)) = storage s"
  by (simp add: handleDataMsg_def nanoid_def Let_def)

lemma storage_handleMediaMsg:
  "storage (snd (handleMediaMsg l c s)) = (storage s)(JStr (nanoid_out s (nanoid_count s)) \<mapsto> c)"
  by (simp add: handleMediaMsg_def nanoid_def storage_set_def Let_def)

lemma storage_subscribeToPeerEvents:
  "storage (snd (subscribeToPeerEvents p s)) = storage s"
  by (simp add: subscribeToPeerEvents_def Let_def)

lemma storage_newPeer: "storage (snd (newPeer data s)) = storage s"
  by (simp add: newPeer_def lib_new_Peer_def subscribeToPeerEvents_def Let_def)

lemma storage_connectToPeer: "storage (snd (connectToPeer data s)) = storage s"
proof (cases "getPeer (field ''local'' data) s")
  case (Pair r s1)
  then have "storage s1 = storage s"
    using storage_getPeer [of "field ''local'' data" s] by simp
  with Pair show ?thesis
    by (cases r) (simp_all add: connectToPeer_def lib_connect_def storage_handleDataMsg Let_def)
qed

lemma storage_reconnectToServer: "storage (snd (reconnectToServer data s)) = storage s"
proof (cases "getPeer (field ''peerID'' data) s")
  case (Pair r s1)
  then have "storage s1 = storage s"
    using storage_getPeer [of "field ''peerID'' data" s] by simp
  with Pair show ?thesis
    by (cases r) (simp_all add: reconnectToServer_def lib_reconnect_def)
qed

lemma storage_answerMediaConnection:
  "storage (snd (answerMediaConnection data s)) = storage s"
proof (cases "getMediaConnection (field ''mediaConnectionID'' data) s")
  case (Pair r s1)
  then have s1: "storage s1 = storage s"
    using storage_getMediaConnection [of "field ''mediaConnectionID'' data" s] by simp
  show ?thesis
  proof (cases r)
    case (Inl ex)
    with Pair s1 show ?thesis by (simp add: answerMediaConnection_def)
  next
    case (Inr mc)
    show ?thesis
    proof (cases "getStream (field ''streamID'' data) s1")
      case (Pair r2 s2)
      then have "storage s2 = storage s1"
        using storage_getStream [of "field ''streamID'' data" s1] by simp
      with Pair \<open>getMediaConnection (field ''mediaConnectionID'' data) s = (r, s1)\<close> Inr s1
      show ?thesis
        by (cases r2) (simp_all add: answerMediaConnection_def lib_answer_def)
    qed
  qed
qed

lemma dom_storage_callPeer: "dom (storage s) \<subseteq> dom (storage (snd (callPeer data s)))"
proof (cases "getPeer (field ''local'' data) s")
  case (Pair r s1)
  then have s1: "storage s1 = storage s"
    using storage_getPeer [of "field ''local'' data" s] by simp
  show ?thesis
  proof (cases r)
    case (Inl ex)
    with Pair s1 show ?thesis by (simp add: callPeer_def)
  next
    case (Inr peer)
    show ?thesis
    proof (cases "getStream (field ''streamID'' data) s1")
      case (Pair r2 s2)
      then have "storage s2 = storage s1"
        using storage_getStream [of "field ''streamID'' data" s1] by simp
      with Pair \<open>getPeer (field ''local'' data) s = (r, s1)\<close> Inr s1
      show ?thesis
        by (cases r2) (auto simp add: callPeer_def lib_call_def storage_handleMediaMsg Let_def)
    qed
  qed
qed

lemmas storage_frames =
  storage_newPeer storage_connectToPeer storage_reconnectToServer
  storage_answerMediaConnection storage_subscribeToPeerEvents storage_handleDataMsg
  storage_handleMediaMsg

lemma dom_storage_call_method:
  "dom (storage s) \<subseteq> dom (storage (snd (call_method f msg s)))"
  using dom_storage_callPeer [of s "Obj msg"]
  by (auto simp add: call_method_def storage_frames)

lemma dom_storage_handleMsg: "dom (storage s) \<subseteq> dom (storage (snd (handleMsg msg s)))"
  using dom_storage_call_method [of s _ msg]
  by (simp add: handleMsg_def split: jsvalue.split)

lemma storage_data_on_data:
  "dom (storage s) \<subseteq> dom (storage (data_on_data e d s))"
  by (auto simp add: data_on_data_def nanoid_def storage_set_def send_def Let_def)

lemma storage_media_on_stream:
  "dom (storage s) \<subseteq> dom (storage (media_on_stream e st s))"
  by (auto simp add: media_on_stream_def nanoid_def storage_set_def send_def Let_def)

text \<open>
  C8. Over every run of the adapter's code, a command or a callback: a key that is in
  the storage before the run and not after it was deleted by the close callback of a
  peer session, and is the key that callback deletes. The close callback of a peer
  session deletes that one key; the close callbacks of a data channel and of a media
  connection leave the storage as it was. So the entries of data channels, media
  connections, media streams and raw payloads are removed by no callback of theirs
  and by no command; and where the key the close callback of a peer session deletes
  holds a peer session or nothing, every entry that is no peer session stays as it is.
\<close>

theorem only_peer_close_deletes:
  "(k \<in> dom (storage s) \<and> k \<notin> dom (storage (step i s)) \<longrightarrow> (\<exists>e. i = PeerClose e k)) \<and>
   storage (step (PeerClose e peer_id) s) = (storage s)(peer_id := None) \<and>
   storage (step (DataClose d) s) = storage s \<and>
   storage (step (MediaClose m) s) = storage s \<and>
   (storage s k = Some v \<and> \<not> instanceof_Peer v \<and>
    (\<forall>w. storage s peer_id = Some w \<longrightarrow> instanceof_Peer w) \<longrightarrow>
      storage (step (PeerClose e peer_id) s) k = Some v)"
proof (intro conjI impI)
  assume a: "k \<in> dom (storage s) \<and> k \<notin> dom (storage (step i s))"
  show "\<exists>e. i = PeerClose e k"
  proof (cases i)
    case (Command msg)
    with a dom_storage_handleMsg [of s msg] show ?thesis by auto
  next
    case (PeerOpen e ident)
    with a show ?thesis by (auto simp add: peer_on_open_def Let_def storage_set_def send_def)
  next
    case (PeerClose e pid)
    with a show ?thesis
      by (auto simp add: peer_on_close_def storage_delete_def send_def Let_def
            split: if_splits)
  next
    case (PeerDisconnected e ident)
    with a show ?thesis by (auto simp add: peer_on_disconnected_def send_def)
  next
    case (PeerError e err)
    with a show ?thesis by (auto simp add: peer_on_error_def send_def)
  next
    case (PeerConnection e conn)
    with a show ?thesis by (auto simp add: peer_on_connection_def storage_handleDataMsg)
  next
    case (PeerCall e conn)
    with a show ?thesis by (auto simp add: peer_on_call_def storage_handleMediaMsg)
  next
    case (DataOpen e)
    with a show ?thesis by (auto simp add: data_on_open_def storage_set_def send_def)
  next
    case (DataClose e)
    with a show ?thesis by (auto simp add: data_on_close_def send_def)
  next
    case (DataError e err)
    with a show ?thesis by (auto simp add: data_on_error_def send_def)
  next
    case (DataData e d)
    with a storage_data_on_data [of s e d] show ?thesis by auto
  next
    case (MediaStreamIn e st)
    with a storage_media_on_stream [of s e st] show ?thesis by auto
  next
    case (MediaClose e)
    with a show ?thesis by (auto simp add: media_on_close_def send_def)
  next
    case (MediaError e err)
    with a show ?thesis by (auto simp add: media_on_error_def send_def)
  qed
next
  show "storage (step (PeerClose e peer_id) s) = (storage s)(peer_id := None)"
    by (simp add: peer_on_close_def storage_delete_def send_def Let_def)
next
  show "storage (step (DataClose d) s) = storage s"
    by (simp add: data_on_close_def send_def)
next
  show "storage (step (MediaClose m) s) = storage s"
    by (simp add: media_on_close_def send_def)
next
  assume "storage s k = Some v \<and> \<not> instanceof_Peer v \<and>
    (\<forall>w. storage s peer_id = Some w \<longrightarrow> instanceof_Peer w)"
  then show "storage (step (PeerClose e peer_id) s) k = Some v"
    by (auto simp add: peer_on_close_def storage_delete_def send_def Let_def)
qed

text \<open>
  C8 where a peer session is stored under \<open>abc\<close>, and then a data channel under \<open>h\<close>
  as well.
\<close>

theorem only_peer_close_deletes_witness:
  "JStr ''abc'' \<in> dom (storage (storage_set (JStr ''abc'') (Peer 0) (new_PeerPort sample_ids))) \<and>
   JStr ''abc'' \<notin> dom (storage (step (PeerClose \<lparr>p_peer = Peer 0, p_cell = 0\<rparr> (JStr ''abc''))
                                    (storage_set (JStr ''abc'') (Peer 0) (new_PeerPort sample_ids)))) \<and>
   (\<exists>e. PeerClose \<lparr>p_peer = Peer 0, p_cell = 0\<rparr> (JStr ''abc'') = PeerClose e (JStr ''abc'')) \<and>
   storage (step (DataClose \<lparr>d_dataID = JStr ''h'', d_local = JStr ''abc'',
                             d_conn = DataConnection 1 (JStr ''xyz'')\<rparr>)
              (storage_set (JStr ''abc'') (Peer 0) (new_PeerPort sample_ids))) (JStr ''abc'') =
     Some (Peer 0) \<and>
   storage (step (PeerClose \<lparr>p_peer = Peer 0, p_cell = 0\<rparr> (JStr ''abc''))
              (storage_set (JStr ''h'') (DataConnection 1 (JStr ''xyz''))
                 (storage_set (JStr ''abc'') (Peer 0) (new_PeerPort sample_ids)))) (JStr ''h'') =
     Some (DataConnection 1 (JStr ''xyz''))"
proof -
  let ?s = "storage_set (JStr ''abc'') (Peer 0) (new_PeerPort sample_ids)"
  let ?s' = "storage_set (JStr ''h'') (DataConnection 1 (JStr ''xyz'')) ?s"
  let ?e = "\<lparr>p_peer = Peer 0, p_cell = 0\<rparr>"
  let ?d = "\<lparr>d_dataID = JStr ''h'', d_local = JStr ''abc'',
             d_conn = DataConnection 1 (JStr ''xyz'')\<rparr>"
  note t = only_peer_close_deletes [where k = "JStr ''abc''" and s = ?s
      and i = "PeerClose ?e (JStr ''abc'')" and e = ?e and peer_id = "JStr ''abc''" and d = ?d]
  have a: "JStr ''abc'' \<in> dom (storage ?s)"
    by (simp add: storage_set_def)
  have b: "JStr ''abc'' \<notin> dom (storage (step (PeerClose ?e (JStr ''abc'')) ?s))"
    using t by (simp add: storage_set_def)
  from t a b have c: "\<exists>e. PeerClose ?e (JStr ''abc'') = PeerClose e (JStr ''abc'')"
    by blast
  have d: "storage (step (DataClose ?d) ?s) (JStr ''abc'') = Some (Peer 0)"
    using t by (simp add: storage_set_def)
  have h: "storage ?s' (JStr ''h'') = Some (DataConnection 1 (JStr ''xyz'')) \<and>
      \<not> instanceof_Peer (DataConnection 1 (JStr ''xyz'')) \<and>
      (\<forall>w. storage ?s' (JStr ''abc'') = Some w \<longrightarrow> instanceof_Peer w)"
    by (simp add: storage_set_def)
  have k: "storage (step (PeerClose ?e (JStr ''abc'')) ?s') (JStr ''h'') =
      Some (DataConnection 1 (JStr ''xyz''))"
    using only_peer_close_deletes [where s = ?s' and k = "JStr ''h''"
        and v = "DataConnection 1 (JStr ''xyz'')" and peer_id = "JStr ''abc''" and e = ?e] h
    by blast
  from a b c d k show ?thesis
    by blast
qed

section \<open>Tags that name no handler\<close>

lemma sent_handleDataMsg: "sent (snd (handleDataMsg l c s)) = sent s"
  by (simp add: handleDataMsg_def nanoid_def Let_def)

lemma sent_handleMediaMsg: "sent (snd (handleMediaMsg l c s)) = sent s"
  by (simp add: handleMediaMsg_def nanoid_def storage_set_def Let_def)

lemma sent_subscribeToPeerEvents: "sent (snd (subscribeToPeerEvents p s)) = sent s"
  by (simp add: subscribeToPeerEvents_def Let_def)

lemma call_method_no_handler:
  "f \<notin> set handlers \<Longrightarrow> sent (snd (call_method f msg s)) = sent s"
  by (simp add: call_method_def handlers_def sent_handleDataMsg sent_handleMediaMsg
        sent_subscribeToPeerEvents)

lemma call_method_no_property:
  "f \<notin> set own_methods \<union> set inherited \<Longrightarrow> call_method f msg s = (Inl TypeError, s)"
  by (simp add: call_method_def own_methods_def handlers_def inherited_def)

lemma call_method_returning:
  assumes "f \<in> set [''toString'', ''toLocaleString'', ''valueOf'', ''isPrototypeOf'']"
  shows "call_method f msg s = (Inr (), s)"
proof -
  from assms consider "f = ''toString''" | "f = ''toLocaleString''" | "f = ''valueOf''"
    | "f = ''isPrototypeOf''"
    by auto
  then show ?thesis
    by cases (simp_all add: call_method_def)
qed

lemma call_method_returning_key:
  assumes "f \<in> set [''hasOwnProperty'', ''propertyIsEnumerable'', ''__lookupGetter__'',
                      ''__lookupSetter__'']"
  shows "call_method f msg s =
           (if map_of msg ''toString'' = None then Inr () else Inl TypeError, s)"
proof -
  from assms consider "f = ''hasOwnProperty''" | "f = ''propertyIsEnumerable''"
    | "f = ''__lookupGetter__''" | "f = ''__lookupSetter__''"
    by auto
  then show ?thesis
    by cases (simp_all add: call_method_def)
qed

lemma call_method_raises:
  "f \<notin> set handlers \<Longrightarrow>
   f \<notin> set [''toString'', ''toLocaleString'', ''valueOf'', ''isPrototypeOf'',
              ''hasOwnProperty'', ''propertyIsEnumerable'', ''__lookupGetter__'',
              ''__lookupSetter__''] \<Longrightarrow>
   fst (call_method f msg s) = Inl (if f = ''handleMsg'' then RangeError else TypeError)"
  by (simp add: call_method_def handlers_def subscribeToPeerEvents_def handleDataMsg_def
        handleMediaMsg_def nanoid_def storage_set_def Let_def)

text \<open>
  C9, as claimed: every type tag that names none of the five handlers makes
  \<^verbatim>\<open>handleMsg\<close> raise. The code: the tag \<^verbatim>\<open>ToString\<close> gives the name \<^verbatim>\<open>toString\<close>, which
  the adapter object inherits; the call returns, and the command is ignored without a
  raise.
\<close>

theorem unknown_tag_returns:
  "fname_of ''ToString'' \<notin> set handlers \<and>
   handleMsg [(''type'', JStr ''ToString'')] (new_PeerPort sample_ids) =
     (Inr (), new_PeerPort sample_ids)"
  by (simp add: handleMsg_tag field_def fname_of_def toLowerCase_def call_method_def
        handlers_def)

text \<open>
  C9, amended. For every command whose type tag, its first character lowercased, names
  none of the five handlers, \<^verbatim>\<open>handleMsg\<close> emits no event, and it raises unless the name
  is one of eight members the adapter object inherits: a \<^verbatim>\<open>RangeError\<close> for the name
  \<^verbatim>\<open>handleMsg\<close> and a \<^verbatim>\<open>TypeError\<close> for every other name, the state left as it was when
  the name is no property of the adapter object at all. For the names \<^verbatim>\<open>toString\<close>,
  \<^verbatim>\<open>toLocaleString\<close>, \<^verbatim>\<open>valueOf\<close> and \<^verbatim>\<open>isPrototypeOf\<close>, \<^verbatim>\<open>handleMsg\<close> returns without
  a raise and leaves the state as it was: the command is ignored. For the names
  \<^verbatim>\<open>hasOwnProperty\<close>, \<^verbatim>\<open>propertyIsEnumerable\<close>, \<^verbatim>\<open>__lookupGetter__\<close> and
  \<^verbatim>\<open>__lookupSetter__\<close> it does the same, unless the message has a property \<^verbatim>\<open>toString\<close>
  of its own, when it raises a \<^verbatim>\<open>TypeError\<close>; the state is left as it was in both
  cases.
\<close>

theorem unknown_tag_policy:
  "(field ''type'' (Obj msg) = JStr t \<and> fname_of t \<notin> set handlers \<longrightarrow>
      sent (snd (handleMsg msg s)) = sent s) \<and>
   (field ''type'' (Obj msg) = JStr t \<and> fname_of t \<notin> set handlers \<and>
    fname_of t \<notin> set [''toString'', ''toLocaleString'', ''valueOf'', ''isPrototypeOf'',
                        ''hasOwnProperty'', ''propertyIsEnumerable'', ''__lookupGetter__'',
                        ''__lookupSetter__''] \<longrightarrow>
      fst (handleMsg msg s) =
        Inl (if fname_of t = ''handleMsg'' then RangeError else TypeError)) \<and>
   (field ''type'' (Obj msg) = JStr t \<and> fname_of t \<notin> set own_methods \<union> set inherited \<longrightarrow>
      handleMsg msg s = (Inl TypeError, s)) \<and>
   (field ''type'' (Obj msg) = JStr t \<and>
    fname_of t \<in> set [''toString'', ''toLocaleString'', ''valueOf'', ''isPrototypeOf''] \<longrightarrow>
      handleMsg msg s = (Inr (), s)) \<and>
   (field ''type'' (Obj msg) = JStr t \<and>
    fname_of t \<in> set [''hasOwnProperty'', ''propertyIsEnumerable'', ''__lookupGetter__'',
                        ''__lookupSetter__''] \<longrightarrow>
      handleMsg msg s =
        (if map_of msg ''toString'' = None then Inr () else Inl TypeError, s))"
proof (intro conjI impI; elim conjE)
  assume "field ''type'' (Obj msg) = JStr t" and "fname_of t \<notin> set handlers"
  then show "sent (snd (handleMsg msg s)) = sent s"
    by (simp add: handleMsg_tag call_method_no_handler)
next
  assume tag: "field ''type'' (Obj msg) = JStr t"
    and no_handler: "fname_of t \<notin> set handlers"
    and no_return: "fname_of t \<notin> set [''toString'', ''toLocaleString'', ''valueOf'',
        ''isPrototypeOf'', ''hasOwnProperty'', ''propertyIsEnumerable'', ''__lookupGetter__'',
        ''__lookupSetter__'']"
  from call_method_raises [OF no_handler no_return] tag
  show "fst (handleMsg msg s) =
      Inl (if fname_of t = ''handleMsg'' then RangeError else TypeError)"
    by (simp only: handleMsg_tag)
next
  assume tag: "field ''type'' (Obj msg) = JStr t"
    and name: "fname_of t \<notin> set own_methods \<union> set inherited"
  from call_method_no_property [OF name] tag show "handleMsg msg s = (Inl TypeError, s)"
    by (simp only: handleMsg_tag)
next
  assume tag: "field ''type'' (Obj msg) = JStr t"
    and name: "fname_of t \<in> set [''toString'', ''toLocaleString'', ''valueOf'',
                                  ''isPrototypeOf'']"
  from call_method_returning [OF name] tag show "handleMsg msg s = (Inr (), s)"
    by (simp only: handleMsg_tag)
next
  assume tag: "field ''type'' (Obj msg) = JStr t"
    and name: "fname_of t \<in> set [''hasOwnProperty'', ''propertyIsEnumerable'',
                                  ''__lookupGetter__'', ''__lookupSetter__'']"
  from call_method_returning_key [OF name] tag
  show "handleMsg msg s =
      (if map_of msg ''toString'' = None then Inr () else Inl TypeError, s)"
    by (simp only: handleMsg_tag)
qed

text \<open>
  C9 for the tags \<^verbatim>\<open>HandleMediaMsg\<close>, \<^verbatim>\<open>HandleMsg\<close>, \<^verbatim>\<open>ClosePeer\<close>, \<^verbatim>\<open>ValueOf\<close> and
  \<^verbatim>\<open>HasOwnProperty\<close>.
\<close>

theorem unknown_tag_policy_witness:
  "sent (snd (handleMsg [(''type'', JStr ''HandleMediaMsg'')] (new_PeerPort sample_ids))) = [] \<and>
   fst (handleMsg [(''type'', JStr ''HandleMediaMsg'')] (new_PeerPort sample_ids)) =
     Inl TypeError \<and>
   fst (handleMsg [(''type'', JStr ''HandleMsg'')] (new_PeerPort sample_ids)) =
     Inl RangeError \<and>
   handleMsg [(''type'', JStr ''ClosePeer''), (''peerID'', JStr ''abc'')]
       (new_PeerPort sample_ids) = (Inl TypeError, new_PeerPort sample_ids) \<and>
   handleMsg [(''type'', JStr ''ValueOf'')] (new_PeerPort sample_ids) =
     (Inr (), new_PeerPort sample_ids) \<and>
   handleMsg [(''type'', JStr ''HasOwnProperty'')] (new_PeerPort sample_ids) =
     (Inr (), new_PeerPort sample_ids)"
proof -
  let ?s = "new_PeerPort sample_ids"
  have names: "fname_of ''HandleMediaMsg'' = ''handleMediaMsg''"
    "fname_of ''HandleMsg'' = ''handleMsg''" "fname_of ''ClosePeer'' = ''closePeer''"
    "fname_of ''ValueOf'' = ''valueOf''" "fname_of ''HasOwnProperty'' = ''hasOwnProperty''"
    by (simp_all add: fname_of_def toLowerCase_def)
  have a: "sent (snd (handleMsg [(''type'', JStr ''HandleMediaMsg'')] ?s)) = sent ?s \<and>
      fst (handleMsg [(''type'', JStr ''HandleMediaMsg'')] ?s) = Inl TypeError"
    using unknown_tag_policy [of "[(''type'', JStr ''HandleMediaMsg'')]" "''HandleMediaMsg''" ?s]
    by (simp add: field_def names handlers_def)
  have b: "fst (handleMsg [(''type'', JStr ''HandleMsg'')] ?s) = Inl RangeError"
    using unknown_tag_policy [of "[(''type'', JStr ''HandleMsg'')]" "''HandleMsg''" ?s]
    by (simp add: field_def names handlers_def)
  have c: "handleMsg [(''type'', JStr ''ClosePeer''), (''peerID'', JStr ''abc'')] ?s =
      (Inl TypeError, ?s)"
    using unknown_tag_policy [of "[(''type'', JStr ''ClosePeer''), (''peerID'', JStr ''abc'')]"
        "''ClosePeer''" ?s]
    by (simp add: field_def names handlers_def own_methods_def inherited_def)
  have d: "handleMsg [(''type'', JStr ''ValueOf'')] ?s = (Inr (), ?s)"
    using unknown_tag_policy [of "[(''type'', JStr ''ValueOf'')]" "''ValueOf''" ?s]
    by (simp add: field_def names)
  have e: "handleMsg [(''type'', JStr ''HasOwnProperty'')] ?s = (Inr (), ?s)"
    using unknown_tag_policy [of "[(''type'', JStr ''HasOwnProperty'')]" "''HasOwnProperty''" ?s]
    by (simp add: field_def names)
  have "sent ?s = []"
    by (simp add: new_PeerPort_def)
  with a b c d e show ?thesis
    by simp
qed

section \<open>What each operation does to the \<^verbatim>\<open>peerID\<close> variables\<close>

lemma cell_getPeer: "peerID_cell (snd (getPeer k s)) = peerID_cell s"
  by (simp add: getPeer_def send_def Let_def)

lemma cell_getStream: "peerID_cell (snd (getStream k s)) = peerID_cell s"
  by (simp add: getStream_def send_def Let_def)

lemma cell_getMediaConnection:
  "peerID_cell (snd (getMediaConnection k s)) = peerID_cell s"
  by (simp add: getMediaConnection_def send_def Let_def)

lemma cell_handleDataMsg: "peerID_cell (snd (handleDataMsg l c s)) = peerID_cell s"
  by (simp add: handleDataMsg_def nanoid_def Let_def)

lemma cell_handleMediaMsg: "peerID_cell (snd (handleMediaMsg l c s)) = peerID_cell s"
  by (simp add: handleMediaMsg_def nanoid_def storage_set_def Let_def)

lemma cell_subscribeToPeerEvents:
  "c \<noteq> cell_count s \<Longrightarrow> peerID_cell (snd (subscribeToPeerEvents p s)) c = peerID_cell s c"
  by (simp add: subscribeToPeerEvents_def Let_def)

lemma cell_newPeer:
  "c \<noteq> cell_count s \<Longrightarrow> peerID_cell (snd (newPeer data s)) c = peerID_cell s c"
  by (simp add: newPeer_def lib_new_Peer_def subscribeToPeerEvents_def Let_def)

lemma cell_connectToPeer: "peerID_cell (snd (connectToPeer data s)) = peerID_cell s"
proof (cases "getPeer (field ''local'' data) s")
  case (Pair r s1)
  then have "peerID_cell s1 = peerID_cell s"
    using cell_getPeer [of "field ''local'' data" s] by simp
  with Pair show ?thesis
    by (cases r) (simp_all add: connectToPeer_def lib_connect_def cell_handleDataMsg Let_def)
qed

lemma cell_reconnectToServer:
  "peerID_cell (snd (reconnectToServer data s)) = peerID_cell s"
proof (cases "getPeer (field ''peerID'' data) s")
  case (Pair r s1)
  then have "peerID_cell s1 = peerID_cell s"
    using cell_getPeer [of "field ''peerID'' data" s] by simp
  with Pair show ?thesis
    by (cases r) (simp_all add: reconnectToServer_def lib_reconnect_def)
qed

lemma cell_callPeer: "peerID_cell (snd (callPeer data s)) = peerID_cell s"
proof (cases "getPeer (field ''local'' data) s")
  case outer: (Pair r s1)
  then have s1: "peerID_cell s1 = peerID_cell s"
    using cell_getPeer [of "field ''local'' data" s] by simp
  show ?thesis
  proof (cases r)
    case (Inl ex)
    with outer s1 show ?thesis by (simp add: callPeer_def)
  next
    case (Inr peer)
    show ?thesis
    proof (cases "getStream (field ''streamID'' data) s1")
      case (Pair r2 s2)
      then have "peerID_cell s2 = peerID_cell s1"
        using cell_getStream [of "field ''streamID'' data" s1] by simp
      with Pair outer Inr s1 show ?thesis
        by (cases r2) (simp_all add: callPeer_def lib_call_def cell_handleMediaMsg Let_def)
    qed
  qed
qed

lemma cell_answerMediaConnection:
  "peerID_cell (snd (answerMediaConnection data s)) = peerID_cell s"
proof (cases "getMediaConnection (field ''mediaConnectionID'' data) s")
  case outer: (Pair r s1)
  then have s1: "peerID_cell s1 = peerID_cell s"
    using cell_getMediaConnection [of "field ''mediaConnectionID'' data" s] by simp
  show ?thesis
  proof (cases r)
    case (Inl ex)
    with outer s1 show ?thesis by (simp add: answerMediaConnection_def)
  next
    case (Inr mc)
    show ?thesis
    proof (cases "getStream (field ''streamID'' data) s1")
      case (Pair r2 s2)
      then have "peerID_cell s2 = peerID_cell s1"
        using cell_getStream [of "field ''streamID'' data" s1] by simp
      with Pair outer Inr s1 show ?thesis
        by (cases r2) (simp_all add: answerMediaConnection_def lib_answer_def)
    qed
  qed
qed

lemma cell_call_method:
  "c \<noteq> cell_count s \<Longrightarrow> peerID_cell (snd (call_method f msg s)) c = peerID_cell s c"
  by (simp add: call_method_def cell_newPeer cell_subscribeToPeerEvents cell_connectToPeer
        cell_callPeer cell_reconnectToServer cell_answerMediaConnection cell_handleDataMsg
        cell_handleMediaMsg)

lemma cell_handleMsg:
  "c \<noteq> cell_count s \<Longrightarrow> peerID_cell (snd (handleMsg msg s)) c = peerID_cell s c"
  by (simp add: handleMsg_def cell_call_method split: jsvalue.split)

lemma cell_data_on_data: "peerID_cell (data_on_data e d s) = peerID_cell s"
  by (simp add: data_on_data_def nanoid_def storage_set_def send_def Let_def)

lemma cell_step:
  "c \<noteq> cell_count s \<Longrightarrow> (\<forall>e x. i = PeerOpen e x \<longrightarrow> p_cell e \<noteq> c) \<Longrightarrow>
   peerID_cell (step i s) c = peerID_cell s c"
  by (cases i)
    (simp_all add: cell_handleMsg cell_data_on_data cell_handleDataMsg cell_handleMediaMsg
       peer_on_open_def peer_on_close_def peer_on_disconnected_def
       peer_on_error_def peer_on_connection_def peer_on_call_def data_on_open_def
       data_on_close_def data_on_error_def media_on_stream_def
       media_on_close_def media_on_error_def
       nanoid_def storage_set_def storage_delete_def send_def Let_def)

section \<open>The captured peer identifier\<close>

text \<open>
  C10. The open callback of a peer session assigns the identifier it is given to the
  variable \<^verbatim>\<open>peerID\<close> of its subscription, and no run but an open callback of that
  subscription changes the variable once it exists. \<^verbatim>\<open>PeerClosed\<close> and
  \<^verbatim>\<open>PeerError\<close> carry the value of the variable; the connection and the call callback
  pass it as \<^verbatim>\<open>local\<close> to the data and the media subscriber, and every event of a data
  channel or a media connection carries the \<^verbatim>\<open>local\<close> its subscriber was attached with.
  (A channel or call the adapter itself opens, by \<^verbatim>\<open>ConnectToPeer\<close> or \<^verbatim>\<open>CallPeer\<close>, is
  attached with the \<^verbatim>\<open>local\<close> of the command, the key the peer session is stored
  under; the open callback stores a session under the identifier it captures.)
  \<^verbatim>\<open>PeerDisconnected\<close> carries the identifier the library gives to that callback. A
  subscription whose open callback has not run has \<^verbatim>\<open>undefined\<close> in the variable, and
  its \<^verbatim>\<open>PeerClosed\<close> and \<^verbatim>\<open>PeerError\<close> carry \<^verbatim>\<open>undefined\<close>.
\<close>

theorem peerID_capture:
  "peerID_cell (peer_on_open e ident s) (p_cell e) = ident \<and>
   (c \<noteq> cell_count s \<and> (\<forall>e' x. i = PeerOpen e' x \<longrightarrow> p_cell e' \<noteq> c) \<longrightarrow>
      peerID_cell (step i s) c = peerID_cell s c) \<and>
   sent (peer_on_close e peer_id s) =
     sent s @ [Obj [(''type'', JStr ''PeerClosed''), (''peerID'', peerID_cell s (p_cell e))]] \<and>
   sent (peer_on_error e err s) =
     sent s @ [Obj [(''type'', JStr ''PeerError''), (''peerID'', peerID_cell s (p_cell e)),
                    (''err'', err)]] \<and>
   data_subs (snd (peer_on_connection e (DataConnection r p) s)) =
     data_subs s @ [\<lparr>d_dataID = JStr (nanoid_out s (nanoid_count s)),
                      d_local = peerID_cell s (p_cell e), d_conn = DataConnection r p\<rparr>] \<and>
   media_subs (snd (peer_on_call e (MediaConnection r p) s)) =
     media_subs s @ [\<lparr>m_mediaConnectionID = JStr (nanoid_out s (nanoid_count s)),
                       m_local = peerID_cell s (p_cell e), m_conn = MediaConnection r p\<rparr>] \<and>
   storage_get ident (peer_on_open e ident s) = p_peer e \<and>
   (field ''type'' (Obj msg) = JStr ''ConnectToPeer'' \<and>
    instanceof_Peer (storage_get (field ''local'' (Obj msg)) s) \<longrightarrow>
      d_local (last (data_subs (snd (handleMsg msg s)))) = field ''local'' (Obj msg)) \<and>
   (field ''type'' (Obj msg) = JStr ''CallPeer'' \<and>
    instanceof_Peer (storage_get (field ''local'' (Obj msg)) s) \<and>
    instanceof_MediaStream (storage_get (field ''streamID'' (Obj msg)) s) \<longrightarrow>
      m_local (last (media_subs (snd (handleMsg msg s)))) = field ''local'' (Obj msg)) \<and>
   field ''local'' (last (sent (data_on_open d s))) = d_local d \<and>
   field ''local'' (last (sent (data_on_close d s))) = d_local d \<and>
   field ''local'' (last (sent (data_on_error d err s))) = d_local d \<and>
   field ''local'' (last (sent (data_on_data d x s))) = d_local d \<and>
   field ''local'' (last (sent (media_on_stream m x s))) = m_local m \<and>
   field ''local'' (last (sent (media_on_close m s))) = m_local m \<and>
   field ''local'' (last (sent (media_on_error m err s))) = m_local m \<and>
   sent (peer_on_disconnected e ident s) =
     sent s @ [Obj [(''type'', JStr ''PeerDisconnected''), (''peerID'', ident)]] \<and>
   (let s1 = snd (subscribeToPeerEvents (Peer r) s);
        e0 = \<lparr>p_peer = Peer r, p_cell = cell_count s\<rparr>
    in peer_subs s1 = peer_subs s @ [e0] \<and>
       sent (peer_on_close e0 peer_id s1) =
         sent s @ [Obj [(''type'', JStr ''PeerClosed''), (''peerID'', JUndefined)]] \<and>
       sent (peer_on_error e0 err s1) =
         sent s @ [Obj [(''type'', JStr ''PeerError''), (''peerID'', JUndefined),
                        (''err'', err)]])"
proof (intro conjI)
  show "peerID_cell (peer_on_open e ident s) (p_cell e) = ident"
    by (simp add: peer_on_open_def storage_set_def send_def Let_def)
  show "c \<noteq> cell_count s \<and> (\<forall>e' x. i = PeerOpen e' x \<longrightarrow> p_cell e' \<noteq> c) \<longrightarrow>
      peerID_cell (step i s) c = peerID_cell s c"
    by (simp add: cell_step)
  show "sent (peer_on_close e peer_id s) =
     sent s @ [Obj [(''type'', JStr ''PeerClosed''), (''peerID'', peerID_cell s (p_cell e))]]"
    by (simp add: peer_on_close_def storage_delete_def send_def Let_def)
  show "sent (peer_on_error e err s) =
     sent s @ [Obj [(''type'', JStr ''PeerError''), (''peerID'', peerID_cell s (p_cell e)),
                    (''err'', err)]]"
    by (simp add: peer_on_error_def send_def)
  show "data_subs (snd (peer_on_connection e (DataConnection r p) s)) =
     data_subs s @ [\<lparr>d_dataID = JStr (nanoid_out s (nanoid_count s)),
                      d_local = peerID_cell s (p_cell e), d_conn = DataConnection r p\<rparr>]"
    by (simp add: peer_on_connection_def handleDataMsg_def nanoid_def Let_def)
  show "media_subs (snd (peer_on_call e (MediaConnection r p) s)) =
     media_subs s @ [\<lparr>m_mediaConnectionID = JStr (nanoid_out s (nanoid_count s)),
                       m_local = peerID_cell s (p_cell e), m_conn = MediaConnection r p\<rparr>]"
    by (simp add: peer_on_call_def handleMediaMsg_def nanoid_def storage_set_def Let_def)
  show "storage_get ident (peer_on_open e ident s) = p_peer e"
    by (simp add: peer_on_open_def storage_get_def storage_set_def send_def Let_def)
  show "field ''type'' (Obj msg) = JStr ''ConnectToPeer'' \<and>
    instanceof_Peer (storage_get (field ''local'' (Obj msg)) s) \<longrightarrow>
      d_local (last (data_subs (snd (handleMsg msg s)))) = field ''local'' (Obj msg)"
    by (simp add: handleMsg_ConnectToPeer connectToPeer_found)
  show "field ''type'' (Obj msg) = JStr ''CallPeer'' \<and>
    instanceof_Peer (storage_get (field ''local'' (Obj msg)) s) \<and>
    instanceof_MediaStream (storage_get (field ''streamID'' (Obj msg)) s) \<longrightarrow>
      m_local (last (media_subs (snd (handleMsg msg s)))) = field ''local'' (Obj msg)"
    by (simp add: handleMsg_CallPeer callPeer_found)
  show "field ''local'' (last (sent (data_on_open d s))) = d_local d"
    by (simp add: data_on_open_def send_def field_def)
  show "field ''local'' (last (sent (data_on_close d s))) = d_local d"
    by (simp add: data_on_close_def send_def field_def)
  show "field ''local'' (last (sent (data_on_error d err s))) = d_local d"
    by (simp add: data_on_error_def send_def field_def)
  show "field ''local'' (last (sent (data_on_data d x s))) = d_local d"
    by (simp add: data_on_data_def nanoid_def storage_set_def send_def field_def Let_def)
  show "field ''local'' (last (sent (media_on_stream m x s))) = m_local m"
    by (simp add: media_on_stream_def nanoid_def storage_set_def send_def field_def Let_def)
  show "field ''local'' (last (sent (media_on_close m s))) = m_local m"
    by (simp add: media_on_close_def send_def field_def)
  show "field ''local'' (last (sent (media_on_error m err s))) = m_local m"
    by (simp add: media_on_error_def send_def field_def)
  show "sent (peer_on_disconnected e ident s) =
     sent s @ [Obj [(''type'', JStr ''PeerDisconnected''), (''peerID'', ident)]]"
    by (simp add: peer_on_disconnected_def send_def)
  show "let s1 = snd (subscribeToPeerEvents (Peer r) s);
        e0 = \<lparr>p_peer = Peer r, p_cell = cell_count s\<rparr>
    in peer_subs s1 = peer_subs s @ [e0] \<and>
       sent (peer_on_close e0 peer_id s1) =
         sent s @ [Obj [(''type'', JStr ''PeerClosed''), (''peerID'', JUndefined)]] \<and>
       sent (peer_on_error e0 err s1) =
         sent s @ [Obj [(''type'', JStr ''PeerError''), (''peerID'', JUndefined),
                        (''err'', err)]]"
    by (simp add: subscribeToPeerEvents_def peer_on_close_def peer_on_error_def
          storage_delete_def send_def Let_def)
qed

text \<open>
  C10 on a new adapter: a close before the open carries \<^verbatim>\<open>undefined\<close>; after the open
  with \<open>abc\<close>, a \<^verbatim>\<open>NewPeer\<close> command for another session leaves \<open>abc\<close> in the variable,
  and a \<^verbatim>\<open>ConnectToPeer\<close> command from \<open>abc\<close> attaches its channel with that \<^verbatim>\<open>local\<close>.
\<close>

theorem peerID_capture_witness:
  "sent (peer_on_close \<lparr>p_peer = Peer 0, p_cell = 0\<rparr> JNull
           (snd (subscribeToPeerEvents (Peer 0) (new_PeerPort sample_ids)))) =
     [Obj [(''type'', JStr ''PeerClosed''), (''peerID'', JUndefined)]] \<and>
   peerID_cell
     (step (Command [(''type'', JStr ''NewPeer'')])
        (peer_on_open \<lparr>p_peer = Peer 0, p_cell = 0\<rparr> (JStr ''abc'')
           (snd (subscribeToPeerEvents (Peer 0) (new_PeerPort sample_ids))))) 0 =
     JStr ''abc'' \<and>
   d_local (last (data_subs (snd (handleMsg
       [(''type'', JStr ''ConnectToPeer''), (''local'', JStr ''abc''), (''remote'', JStr ''xyz'')]
       (peer_on_open \<lparr>p_peer = Peer 0, p_cell = 0\<rparr> (JStr ''abc'')
          (snd (subscribeToPeerEvents (Peer 0) (new_PeerPort sample_ids)))))))) = JStr ''abc''"
proof -
  let ?e = "\<lparr>p_peer = Peer 0, p_cell = 0\<rparr>"
  let ?s0 = "new_PeerPort sample_ids"
  let ?s1 = "snd (subscribeToPeerEvents (Peer 0) ?s0)"
  let ?s2 = "peer_on_open ?e (JStr ''abc'') ?s1"
  let ?i = "Command [(''type'', JStr ''NewPeer'')]"
  let ?msg = "[(''type'', JStr ''ConnectToPeer''), (''local'', JStr ''abc''),
               (''remote'', JStr ''xyz'')]"
  have z: "cell_count ?s0 = 0" "sent ?s0 = []"
    by (simp_all add: new_PeerPort_def)
  have before_open: "sent (peer_on_close ?e JNull ?s1) =
      [Obj [(''type'', JStr ''PeerClosed''), (''peerID'', JUndefined)]]"
    using peerID_capture [where s = ?s0 and r = 0 and peer_id = JNull]
    by (simp add: z Let_def)
  have opened: "peerID_cell ?s2 (p_cell ?e) = JStr ''abc''"
    using peerID_capture [where e = ?e and ident = "JStr ''abc''" and s = ?s1]
    by blast
  have h: "0 \<noteq> cell_count ?s2 \<and> (\<forall>e' x. ?i = PeerOpen e' x \<longrightarrow> p_cell e' \<noteq> 0)"
    by (simp add: peer_on_open_def subscribeToPeerEvents_def storage_set_def send_def z
          Let_def)
  have kept: "peerID_cell (step ?i ?s2) 0 = peerID_cell ?s2 0"
    using peerID_capture [where c = 0 and i = ?i and s = ?s2] h
    by blast
  have stored: "storage_get (JStr ''abc'') ?s2 = p_peer ?e"
    using peerID_capture [where e = ?e and ident = "JStr ''abc''" and s = ?s1]
    by blast
  have g: "field ''type'' (Obj ?msg) = JStr ''ConnectToPeer'' \<and>
      instanceof_Peer (storage_get (field ''local'' (Obj ?msg)) ?s2)"
    using stored by (simp add: field_def)
  have outbound: "d_local (last (data_subs (snd (handleMsg ?msg ?s2)))) =
      field ''local'' (Obj ?msg)"
    using peerID_capture [where msg = ?msg and s = ?s2] g
    by blast
  from before_open opened kept outbound show ?thesis
    by (simp add: field_def)
qed

end
